theory Spec2Isabelle
  imports Main "HOL-Library.Sublist"
begin

section \<open>Python values used by the modal engine\<close>

text \<open>
  The engine of \<^verbatim>\<open>src/core/vim_mode.py\<close> and \<^verbatim>\<open>src/core/helix_mode.py\<close> works on
  Python strings and unbounded integers. A Python \<^verbatim>\<open>str\<close> is modelled as a \<open>string\<close>
  whose characters stand for the code points 0..255; offsets are \<open>int\<close>, as in the
  source, so that negative indices keep their Python meaning. An exception that leaves
  a method is the \<open>Inl\<close> branch of the result.
\<close>

datatype error = IndexError | ValueError

definition newline :: char where
  "newline = CHR 0x0A"

definition backslash :: char where
  "backslash = CHR 0x5C"

text \<open>\<^verbatim>\<open>str.isspace\<close>, \<^verbatim>\<open>str.isdigit\<close>, \<^verbatim>\<open>str.isalnum\<close> of a one-character string,
  and the decimal digits that \<^verbatim>\<open>int()\<close> and the pattern \<^verbatim>\<open>\d\<close> accept.\<close>

definition isspace :: "char \<Rightarrow> bool" where
  "isspace c = (let n = (of_char c :: nat) in
     (9 \<le> n \<and> n \<le> 13) \<or> (28 \<le> n \<and> n \<le> 32) \<or> n = 133 \<or> n = 160)"

definition isdecimal :: "char \<Rightarrow> bool" where
  "isdecimal c = (let n = (of_char c :: nat) in 48 \<le> n \<and> n \<le> 57)"

definition isdigit :: "char \<Rightarrow> bool" where
  "isdigit c = (let n = (of_char c :: nat) in
     isdecimal c \<or> n = 178 \<or> n = 179 \<or> n = 185)"

definition isalnum :: "char \<Rightarrow> bool" where
  "isalnum c = (let n = (of_char c :: nat) in
     isdigit c \<or> (65 \<le> n \<and> n \<le> 90) \<or> (97 \<le> n \<and> n \<le> 122)
     \<or> n = 170 \<or> n = 181 \<or> n = 186 \<or> (188 \<le> n \<and> n \<le> 190)
     \<or> (192 \<le> n \<and> n \<le> 214) \<or> (216 \<le> n \<and> n \<le> 246) \<or> 248 \<le> n)"

text \<open>\<^verbatim>\<open>s.isdigit()\<close> of a whole string: non-empty and every character a digit.\<close>

definition str_isdigit :: "string \<Rightarrow> bool" where
  "str_isdigit s = (s \<noteq> [] \<and> list_all isdigit s)"

text \<open>\<^verbatim>\<open>a in b\<close> for two strings is the substring test.\<close>

fun str_in :: "string \<Rightarrow> string \<Rightarrow> bool" where
  "str_in k [] = (k = [])"
| "str_in k (c # cs) = (take (length k) (c # cs) = k \<or> str_in k cs)"

text \<open>\<^verbatim>\<open>s[i]\<close>: a negative index counts from the end, an index out of range raises
  \<^verbatim>\<open>IndexError\<close>.\<close>

definition py_index :: "'a list \<Rightarrow> int \<Rightarrow> error + 'a" where
  "py_index s i =
     (let n = int (length s); j = (if i < 0 then i + n else i)
      in if 0 \<le> j \<and> j < n then Inr (s ! nat j) else Inl IndexError)"

text \<open>Slices \<^verbatim>\<open>s[a:b]\<close>, \<^verbatim>\<open>s[a:]\<close> and \<^verbatim>\<open>s[:b]\<close>: a negative bound counts from
  the end, and every bound is clamped to the string.\<close>

definition slice_bound :: "nat \<Rightarrow> int \<Rightarrow> nat" where
  "slice_bound n i = (if i < 0 then nat (i + int n) else min n (nat i))"

definition py_slice :: "'a list \<Rightarrow> int \<Rightarrow> int \<Rightarrow> 'a list" where
  "py_slice s a b =
     (let i = slice_bound (length s) a; j = slice_bound (length s) b
      in take (j - i) (drop i s))"

definition py_slice_from :: "'a list \<Rightarrow> int \<Rightarrow> 'a list" where
  "py_slice_from s a = drop (slice_bound (length s) a) s"

definition py_slice_to :: "'a list \<Rightarrow> int \<Rightarrow> 'a list" where
  "py_slice_to s b = take (slice_bound (length s) b) s"

text \<open>\<^verbatim>\<open>s.strip()\<close>, \<^verbatim>\<open>s.split(None, 1)\<close>, \<^verbatim>\<open>s.split()\<close> and \<^verbatim>\<open>s.split(sep)\<close> for a
  one-character separator.\<close>

definition strip :: "string \<Rightarrow> string" where
  "strip s = rev (dropWhile isspace (rev (dropWhile isspace s)))"

definition split1 :: "string \<Rightarrow> string list" where
  "split1 s =
     (let s1 = dropWhile isspace s in
      if s1 = [] then []
      else let r = dropWhile isspace (dropWhile (\<lambda>c. \<not> isspace c) s1) in
        if r = [] then [takeWhile (\<lambda>c. \<not> isspace c) s1]
        else [takeWhile (\<lambda>c. \<not> isspace c) s1, r])"

fun split_on :: "char \<Rightarrow> string \<Rightarrow> string list" where
  "split_on sep [] = [[]]"
| "split_on sep (c # cs) =
     (if c = sep then [] # split_on sep cs
      else (case split_on sep cs of [] \<Rightarrow> [[c]] | l # ls \<Rightarrow> (c # l) # ls))"

text \<open>\<^verbatim>\<open>int(s)\<close> in base ten: surrounding whitespace, one optional sign, decimal
  digits with single underscores between them; anything else raises \<^verbatim>\<open>ValueError\<close>.
  (The interpreter's limit on the number of digits of such a string is left out.)\<close>

fun digits_ok :: "string \<Rightarrow> bool" where
  "digits_ok [] = False"
| "digits_ok [c] = isdecimal c"
| "digits_ok (c # d # cs) =
     (isdecimal c \<and> (if d = CHR ''_'' then digits_ok cs else digits_ok (d # cs)))"

definition digits_value :: "string \<Rightarrow> int" where
  "digits_value s =
     foldl (\<lambda>a c. 10 * a + (int (of_char c) - 48)) 0 (filter (\<lambda>c. c \<noteq> CHR ''_'') s)"

definition py_int :: "string \<Rightarrow> error + int" where
  "py_int s =
     (let t = strip s;
          neg = (t \<noteq> [] \<and> hd t = CHR ''-'');
          body = (if t \<noteq> [] \<and> (hd t = CHR ''-'' \<or> hd t = CHR ''+'') then tl t else t)
      in if digits_ok body then Inr (if neg then - digits_value body else digits_value body)
         else Inl ValueError)"

text \<open>A dict literal keeps the last of two entries with the same key.\<close>

definition py_dict :: "('k \<times> 'v) list \<Rightarrow> 'k \<rightharpoonup> 'v" where
  "py_dict kvs = map_of (rev kvs)"

section \<open>Regular expressions\<close>

text \<open>
  The engine calls Python's \<^verbatim>\<open>re\<close> with a handful of fixed patterns. They are written
  here as terms of \<open>re\<close>, and matched the way a backtracking matcher does: \<open>rmatch\<close>
  lists every way the pattern can match at the current position, in the order the
  matcher tries them (a greedy repetition longest first, a lazy one shortest first, the
  left alternative first), so that the head of the list is the match \<^verbatim>\<open>re.match\<close>
  returns. Every repetition in the source's patterns is over a single character class.
\<close>

datatype re =
    Eps
  | Bol
  | Eol
  | Chr char
  | Cls "char \<Rightarrow> bool"
  | Star "char \<Rightarrow> bool"
  | Plus "char \<Rightarrow> bool"
  | LazyStar "char \<Rightarrow> bool"
  | Opt re
  | Seq re re
  | Alt re re
  | Grp nat re
  | Ref nat

record mstate =
  mpos :: nat
  mrest :: string
  mgroups :: "(nat \<times> string) list"

definition advance :: "nat \<Rightarrow> mstate \<Rightarrow> mstate" where
  "advance k st = st\<lparr>mpos := mpos st + k, mrest := drop k (mrest st)\<rparr>"

primrec rmatch :: "re \<Rightarrow> mstate \<Rightarrow> mstate list" where
  "rmatch Eps st = [st]"
| "rmatch Bol st = (if mpos st = 0 then [st] else [])"
| "rmatch Eol st = (if mrest st = [] \<or> mrest st = [newline] then [st] else [])"
| "rmatch (Chr c) st =
     (case mrest st of [] \<Rightarrow> [] | x # _ \<Rightarrow> if x = c then [advance 1 st] else [])"
| "rmatch (Cls p) st =
     (case mrest st of [] \<Rightarrow> [] | x # _ \<Rightarrow> if p x then [advance 1 st] else [])"
| "rmatch (Star p) st =
     map (\<lambda>k. advance k st) (rev [0..<Suc (length (takeWhile p (mrest st)))])"
| "rmatch (Plus p) st =
     map (\<lambda>k. advance k st) (rev [1..<Suc (length (takeWhile p (mrest st)))])"
| "rmatch (LazyStar p) st =
     map (\<lambda>k. advance k st) [0..<Suc (length (takeWhile p (mrest st)))]"
| "rmatch (Opt r) st = rmatch r st @ [st]"
| "rmatch (Seq r1 r2) st = concat (map (rmatch r2) (rmatch r1 st))"
| "rmatch (Alt r1 r2) st = rmatch r1 st @ rmatch r2 st"
| "rmatch (Grp n r) st =
     map (\<lambda>st'. st'\<lparr>mgroups := (n, take (mpos st' - mpos st) (mrest st)) # mgroups st'\<rparr>)
       (rmatch r st)"
| "rmatch (Ref n) st =
     (case map_of (mgroups st) n of
        None \<Rightarrow> []
      | Some w \<Rightarrow> if take (length w) (mrest st) = w then [advance (length w) st] else [])"

definition seq :: "re list \<Rightarrow> re" where
  "seq rs = foldr Seq rs Eps"

text \<open>\<^verbatim>\<open>re.match(pattern, s)\<close>, and \<^verbatim>\<open>m.group(n)\<close> of its result (\<open>None\<close> for a group
  that took no part in the match).\<close>

definition re_match :: "re \<Rightarrow> string \<Rightarrow> mstate option" where
  "re_match r s =
     (case rmatch r \<lparr>mpos = 0, mrest = s, mgroups = []\<rparr> of [] \<Rightarrow> None | st # _ \<Rightarrow> Some st)"

definition group :: "mstate \<Rightarrow> nat \<Rightarrow> string option" where
  "group st n = map_of (mgroups st) n"

text \<open>The classes \<^verbatim>\<open>.\<close> (without DOTALL) and \<^verbatim>\<open>\w\<close>.\<close>

definition dot :: "char \<Rightarrow> bool" where
  "dot c = (c \<noteq> newline)"

definition isword :: "char \<Rightarrow> bool" where
  "isword c = (isalnum c \<or> c = CHR ''_'')"

section \<open>The Vim engine: state\<close>

datatype EditorMode = NORMAL | INSERT | VISUAL | VISUAL_LINE | VISUAL_BLOCK | COMMAND | REPLACE

record Register =
  content :: string
  linewise :: bool

record CommandState =
  buffer :: string
  cursor_pos :: int
  history :: "string list"
  history_index :: int

text \<open>An action is a Python dict from field names to strings, integers, booleans or
  \<^verbatim>\<open>None\<close>; it is kept as the list of its items in insertion order.\<close>

datatype pyval = Str string | Num int | Bool bool | NoneVal

type_synonym Action = "(string \<times> pyval) list"

text \<open>The fields of \<^verbatim>\<open>VimMode\<close> that key handling and the register methods read or
  write. The callbacks \<^verbatim>\<open>on_mode_change\<close> and \<^verbatim>\<open>on_status_update\<close> are unset, as
  \<^verbatim>\<open>__init__\<close> leaves them, so \<^verbatim>\<open>_update_status\<close> does nothing.\<close>

record VimMode =
  mode :: EditorMode
  previous_mode :: "EditorMode option"
  registers :: "string \<rightharpoonup> Register"
  count_buffer :: string
  operator_pending :: "string option"
  motion_buffer :: string
  command_state :: CommandState
  key_sequence :: string
  selection_anchor :: "(int \<times> int) option"

definition Register0 :: Register where
  "Register0 = \<lparr>content = [], linewise = False\<rparr>"

definition CommandState0 :: CommandState where
  "CommandState0 = \<lparr>buffer = [], cursor_pos = 0, history = [], history_index = - 1\<rparr>"

text \<open>\<^verbatim>\<open>VimMode.__init__\<close>: the register map holds the unnamed register, a-z and 0-9.\<close>

definition init_registers :: "string \<rightharpoonup> Register" where
  "init_registers =
     py_dict (([], Register0)
       # map (\<lambda>i. ([char_of (97 + i)], Register0)) [0..<26]
       @ map (\<lambda>i. ([char_of (48 + i)], Register0)) [0..<10])"

definition init_vim :: VimMode where
  "init_vim = \<lparr>mode = NORMAL, previous_mode = None, registers = init_registers,
     count_buffer = [], operator_pending = None, motion_buffer = [],
     command_state = CommandState0, key_sequence = [], selection_anchor = None\<rparr>"

definition set_register :: "string \<Rightarrow> string \<Rightarrow> bool \<Rightarrow> VimMode \<Rightarrow> VimMode" where
  "set_register name c lw vm =
     (let r = \<lparr>content = c, linewise = lw\<rparr>;
          vm1 = (if name \<in> dom (registers vm)
                 then vm\<lparr>registers := (registers vm)(name \<mapsto> r)\<rparr> else vm)
      in if name \<noteq> [] then vm1\<lparr>registers := (registers vm1)([] \<mapsto> r)\<rparr> else vm1)"

definition get_register :: "VimMode \<Rightarrow> string \<Rightarrow> Register option" where
  "get_register vm name =
     (case registers vm name of Some r \<Rightarrow> Some r | None \<Rightarrow> registers vm [])"

section \<open>The Vim engine: mode transitions\<close>

definition enter_mode :: "EditorMode \<Rightarrow> VimMode \<Rightarrow> VimMode" where
  "enter_mode m vm =
     (if m = mode vm then vm
      else vm\<lparr>previous_mode := Some (mode vm), mode := m, count_buffer := [],
              operator_pending := None, key_sequence := [], motion_buffer := []\<rparr>)"

definition enter_insert_mode :: "VimMode \<Rightarrow> VimMode" where
  "enter_insert_mode vm = enter_mode INSERT vm"

definition enter_normal_mode :: "VimMode \<Rightarrow> VimMode" where
  "enter_normal_mode vm =
     (let vm1 = enter_mode NORMAL vm
      in if selection_anchor vm1 \<noteq> None then vm1\<lparr>selection_anchor := None\<rparr> else vm1)"

definition enter_visual_mode :: "bool \<Rightarrow> bool \<Rightarrow> VimMode \<Rightarrow> VimMode" where
  "enter_visual_mode line_wise block vm =
     (if block then enter_mode VISUAL_BLOCK vm
      else if line_wise then enter_mode VISUAL_LINE vm
      else enter_mode VISUAL vm)"

definition enter_command_mode :: "VimMode \<Rightarrow> VimMode" where
  "enter_command_mode vm = enter_mode COMMAND (vm\<lparr>command_state := CommandState0\<rparr>)"

definition enter_replace_mode :: "VimMode \<Rightarrow> VimMode" where
  "enter_replace_mode vm = enter_mode REPLACE vm"

section \<open>The Vim engine: key tables\<close>

definition act :: "string \<Rightarrow> Action" where
  "act name = [(''action'', Str name)]"

definition opt_str :: "string option \<Rightarrow> pyval" where
  "opt_str v = (case v of None \<Rightarrow> NoneVal | Some s \<Rightarrow> Str s)"

text \<open>\<^verbatim>\<open>modifiers.get('ctrl', False)\<close>.\<close>

definition ctrl_of :: "(string \<rightharpoonup> bool) \<Rightarrow> bool" where
  "ctrl_of modifiers = (case modifiers ''ctrl'' of Some b \<Rightarrow> b | None \<Rightarrow> False)"

definition ctrl_map :: "string \<rightharpoonup> Action" where
  "ctrl_map = py_dict
     [(''f'', act ''page_down''), (''b'', act ''page_up''),
      (''d'', act ''half_page_down''), (''u'', act ''half_page_up''),
      (''e'', act ''scroll_line_down''), (''y'', act ''scroll_line_up''),
      (''r'', act ''redo''), (''a'', act ''increment_number''),
      (''x'', act ''decrement_number''), (''v'', act ''enter_visual_block_mode''),
      (''o'', act ''insert_line_above_and_enter''), (''n'', act ''search_next_word'')]"

definition handle_ctrl_key :: "string \<Rightarrow> Action option" where
  "handle_ctrl_key key = ctrl_map key"

definition single_char_map :: "string \<rightharpoonup> string" where
  "single_char_map = py_dict
     [(''i'', ''enter_insert_mode''), (''I'', ''insert_line_start''),
      (''a'', ''insert_after''), (''A'', ''insert_line_end''),
      (''o'', ''insert_line_below''), (''O'', ''insert_line_above''),
      (''v'', ''enter_visual_mode''), (''V'', ''enter_visual_line_mode''),
      (''s'', ''substitute_char''), (''S'', ''substitute_line''),
      (''x'', ''delete_char''), (''X'', ''delete_char_before''),
      (''r'', ''replace_char_prompt''), (''R'', ''enter_replace_mode''),
      (''p'', ''paste_after''), (''P'', ''paste_before''),
      (''J'', ''join_lines''), (''~'', ''toggle_case_and_move''),
      (''u'', ''undo''), (''U'', ''undo_line''),
      (''.'', ''repeat_last_edit''), (''@'', ''execute_macro''),
      (''q'', ''record_macro''), (''m'', ''set_mark''),
      ([CHR 0x27], ''goto_mark_line''), (''`'', ''goto_mark_exact''),
      ('':'', ''enter_command_mode''), (''/'', ''search_forward''),
      (''?'', ''search_backward''), (''n'', ''search_next''),
      (''N'', ''search_prev''), (''*'', ''search_word_forward''),
      (''#'', ''search_word_backward''), (''%'', ''match_bracket''),
      (''zz'', ''center_cursor''), (''zt'', ''cursor_top''),
      (''zb'', ''cursor_bottom''), (''z.'', ''center_cursor_first_char''),
      (''z-'', ''cursor_bottom_first_char''), (''z<CR>'', ''cursor_top_first_char''),
      (''zz'', ''center_view''), (''zj'', ''next_fold''),
      (''zk'', ''prev_fold''), (''zo'', ''open_fold''),
      (''zc'', ''close_fold''), (''za'', ''toggle_fold''),
      (''zr'', ''open_all_folds''), (''zm'', ''close_all_folds'')]"

definition two_char_map :: "string \<rightharpoonup> string" where
  "two_char_map = py_dict
     [(''dd'', ''delete_line''), (''cc'', ''change_line''), (''yy'', ''yank_line''),
      (''Y'', ''yank_to_end''), (''D'', ''delete_to_end''), (''C'', ''change_to_end''),
      (''gg'', ''goto_file_start''), (''G'', ''goto_file_end''),
      (''>>'', ''indent_line''), (''<<'', ''unindent_line''), (''=='', ''auto_indent_line''),
      (''gd'', ''goto_definition''), (''gD'', ''goto_definition_global''),
      (''gf'', ''goto_file''), (''ga'', ''show_ascii''), (''g8'', ''show_utf8''),
      (''gg'', ''goto_first_line''), (''gi'', ''goto_last_insert''),
      (''gI'', ''insert_line_start''), (''gh'', ''select_mode''),
      (''gn'', ''select_next_match''), (''gN'', ''select_prev_match''),
      (''ge'', ''word_end_backward''), (''gE'', ''WORD_end_backward''),
      (''gu'', ''make_lowercase_motion''), (''gU'', ''make_uppercase_motion''),
      (''g~'', ''toggle_case_motion''), (''gq'', ''format_motion''),
      (''gw'', ''format_motion_keep_cursor''), (''gx'', ''open_url''),
      (''[['', ''prev_section''), ('']]'', ''next_section''),
      (''[]'', ''prev_section_end''), ('']['', ''next_section_end''),
      (''[('', ''prev_unmatched_open_brace''), (''])'', ''next_unmatched_close_brace''),
      (''[{'', ''prev_unmatched_open_brace''), ('']}'', ''next_unmatched_close_brace''),
      (''[m'', ''prev_method_start''), ('']m'', ''next_method_start''),
      (''[M'', ''prev_method_end''), ('']M'', ''next_method_end''),
      (''[*'', ''prev_comment''), ('']*'', ''next_comment''),
      (''[(]'', ''prev_open_paren''), (''])'', ''next_close_paren'')]"

definition objects :: "string \<rightharpoonup> string" where
  "objects = py_dict
     [([CHR 0x22], ''double_quote''), ([CHR 0x27], ''single_quote''), (''`'', ''backtick''),
      (''('', ''parentheses''), ('')'', ''parentheses''),
      (''['', ''brackets''), ('']'', ''brackets''),
      (''{'', ''braces''), (''}'', ''braces''),
      (''<'', ''angle_brackets''), (''>'', ''angle_brackets''),
      (''t'', ''tag''), (''w'', ''word''), (''W'', ''WORD''),
      (''s'', ''sentence''), (''p'', ''paragraph''),
      (''b'', ''block''), (''B'', ''block''), (''i'', ''indent'')]"

definition motion_map :: "string \<rightharpoonup> string" where
  "motion_map = py_dict
     [(''w'', ''word''), (''W'', ''WORD''), (''e'', ''word_end''), (''E'', ''WORD_end''),
      (''b'', ''word_back''), (''B'', ''WORD_back''),
      (''$'', ''line_end''), (''0'', ''line_start''), (''^'', ''first_non_whitespace'')]"

definition lookup_action :: "string \<Rightarrow> string option" where
  "lookup_action sequence =
     (case single_char_map sequence of
        Some a \<Rightarrow> Some a
      | None \<Rightarrow>
     (case two_char_map sequence of
        Some a \<Rightarrow> Some a
      | None \<Rightarrow>
        if 2 \<le> length sequence \<and> str_in [sequence ! 0] ''cdy'' then
          if length sequence = 2 \<and> str_in [sequence ! 1] ''wWebB$0^'' then
            Some ([sequence ! 0] @ ''_motion_'' @
              (case motion_map [sequence ! 1] of Some m \<Rightarrow> m | None \<Rightarrow> [sequence ! 1]))
          else if length sequence = 3 \<and> str_in [sequence ! 1] ''ia'' then
            (case objects [sequence ! 2] of
               Some ob \<Rightarrow>
                 Some ([sequence ! 0] @ ''_''
                   @ (if sequence ! 1 = CHR ''i'' then ''inner'' else ''around'') @ ''_'' @ ob)
             | None \<Rightarrow> None)
          else None
        else None))"

definition is_operator :: "string \<Rightarrow> bool" where
  "is_operator key = str_in key ''cdy><g~gu gUgqgwg!?''"

definition all_sequences :: "string list" where
  "all_sequences =
     [''gg'', ''gd'', ''gD'', ''gf'', ''ga'', ''g8'', ''gi'', ''gI'', ''gh'', ''gn'', ''gN'',
      ''ge'', ''gE'', ''gu'', ''gU'', ''g~'', ''gq'', ''gw'', ''gx'',
      ''dd'', ''cc'', ''yy'', ''>>'', ''<<'', ''=='',
      ''ci'', ''ca'', ''di'', ''da'', ''yi'', ''ya'',
      ''[['', '']]'', ''[]'', '']['',
      ''[('', ''])'', ''[{'', '']}'', ''[m'', '']m'', ''[M'', '']M'',
      ''zj'', ''zk'', ''zo'', ''zc'', ''za'', ''zr'', ''zm'']"

definition startswith :: "string \<Rightarrow> string \<Rightarrow> bool" where
  "startswith s p = (take (length p) s = p)"

definition has_partial_match :: "string \<Rightarrow> bool" where
  "has_partial_match sequence =
     list_ex (\<lambda>sq. startswith sq sequence \<and> sq \<noteq> sequence) all_sequences"

definition execute_action :: "VimMode \<Rightarrow> string \<Rightarrow> error + Action" where
  "execute_action vm action =
     (case (if count_buffer vm \<noteq> [] then py_int (count_buffer vm) else Inr 1) of
        Inl e \<Rightarrow> Inl e
      | Inr count \<Rightarrow>
          Inr [(''action'', Str action), (''count'', Num count),
               (''operator'', opt_str (operator_pending vm))])"

section \<open>The Vim engine: keys in Normal, Insert, Visual and Replace mode\<close>

text \<open>Every handler returns the engine's state after the call together with what the
  call returned: a raised exception, \<^verbatim>\<open>None\<close> or an action.\<close>

type_synonym outcome = "VimMode \<times> (error + Action option)"

definition handle_normal_key :: "string \<Rightarrow> (string \<rightharpoonup> bool) \<Rightarrow> VimMode \<Rightarrow> outcome" where
  "handle_normal_key key modifiers vm =
     (if ctrl_of modifiers then (vm, Inr (handle_ctrl_key key))
      else if str_isdigit key \<and> (count_buffer vm \<noteq> [] \<or> key \<noteq> ''0'') then
        (vm\<lparr>count_buffer := count_buffer vm @ key\<rparr>, Inr None)
      else
        let vm1 = vm\<lparr>key_sequence := key_sequence vm @ key\<rparr> in
        case lookup_action (key_sequence vm1) of
          Some action \<Rightarrow>
            (case execute_action vm1 action of
               Inl e \<Rightarrow> (vm1, Inl e)
             | Inr result \<Rightarrow> (vm1\<lparr>key_sequence := [], count_buffer := []\<rparr>, Inr (Some result)))
        | None \<Rightarrow>
            if is_operator key then (vm1\<lparr>operator_pending := Some key\<rparr>, Inr None)
            else if has_partial_match (key_sequence vm1) then (vm1, Inr None)
            else (vm1\<lparr>key_sequence := [], count_buffer := [], operator_pending := None\<rparr>,
                  Inr None))"

definition insert_ctrl_map :: "string \<rightharpoonup> Action" where
  "insert_ctrl_map = py_dict
     [(''o'', act ''single_normal_command''), (''w'', act ''delete_word_before''),
      (''u'', act ''delete_to_line_start''), (''t'', act ''indent_line''),
      (''d'', act ''unindent_line''), (''n'', act ''completion_next''),
      (''p'', act ''completion_prev'')]"

definition handle_insert_key :: "string \<Rightarrow> (string \<rightharpoonup> bool) \<Rightarrow> VimMode \<Rightarrow> outcome" where
  "handle_insert_key key modifiers vm =
     (let ctrl = ctrl_of modifiers in
      if ctrl \<and> insert_ctrl_map key \<noteq> None then (vm, Inr (insert_ctrl_map key))
      else if key = ''Escape'' \<or> (ctrl \<and> key = ''c'') then
        (enter_normal_mode vm, Inr (Some (act ''exit_insert_mode'')))
      else (vm, Inr (Some [(''action'', Str ''insert_char''), (''char'', Str key)])))"

definition key_to_motion :: "string \<Rightarrow> string" where
  "key_to_motion key =
     (case py_dict [(''h'', ''left''), (''j'', ''down''), (''k'', ''up''), (''l'', ''right'')] key of
        Some m \<Rightarrow> m | None \<Rightarrow> key)"

definition visual_action_map :: "string \<rightharpoonup> string" where
  "visual_action_map = py_dict
     [(''o'', ''move_to_other_end''), (''O'', ''move_to_other_end_block''),
      (''gv'', ''reselect_last''), (''J'', ''join_selection_lines''),
      (''u'', ''selection_to_lowercase''), (''U'', ''selection_to_uppercase''),
      (''>'', ''indent_selection''), (''<'', ''unindent_selection''),
      (''='', ''auto_indent_selection'')]"

definition returning :: "VimMode \<Rightarrow> error + Action \<Rightarrow> outcome" where
  "returning vm r = (vm, case r of Inl e \<Rightarrow> Inl e | Inr a \<Rightarrow> Inr (Some a))"

definition handle_visual_key :: "string \<Rightarrow> (string \<rightharpoonup> bool) \<Rightarrow> VimMode \<Rightarrow> outcome" where
  "handle_visual_key key modifiers vm =
     (if key = ''Escape'' \<or> (ctrl_of modifiers \<and> key = ''c'') then
        (enter_normal_mode vm, Inr (Some (act ''clear_selection'')))
      else if str_in key ''hjkl'' then (vm, Inr (Some (act (''extend_'' @ key_to_motion key))))
      else if key = ''d'' \<or> key = ''x'' then returning vm (execute_action vm ''delete_selection'')
      else if key = ''y'' then returning vm (execute_action vm ''yank_selection'')
      else if key = ''c'' then returning vm (execute_action vm ''change_selection'')
      else if key = ''r'' then
        (enter_mode NORMAL vm,
         Inr (Some [(''action'', Str ''replace_selection''), (''await_char'', Bool True)]))
      else (case visual_action_map key of
              Some a \<Rightarrow> (vm, Inr (Some (act a)))
            | None \<Rightarrow> (vm, Inr None)))"

definition handle_replace_key :: "string \<Rightarrow> (string \<rightharpoonup> bool) \<Rightarrow> VimMode \<Rightarrow> outcome" where
  "handle_replace_key key modifiers vm =
     (if key = ''Escape'' then (enter_normal_mode vm, Inr None)
      else (vm, Inr (Some [(''action'', Str ''replace_char''), (''char'', Str key)])))"

section \<open>The Vim engine: ex commands\<close>

text \<open>A handler of the command table takes the argument text and the two range bounds
  (\<^verbatim>\<open>start\<close>, \<^verbatim>\<open>end\<close>, both \<^verbatim>\<open>None\<close> when the command is called without a range).\<close>

type_synonym handler = "string \<Rightarrow> string option \<Rightarrow> string option \<Rightarrow> error + Action"

definition path_action :: "string \<Rightarrow> string \<Rightarrow> string \<Rightarrow> Action" where
  "path_action name field v = [(''action'', Str name), (field, Str v)]"

definition err_action :: "string \<Rightarrow> Action" where
  "err_action msg = [(''action'', Str ''error''), (''message'', Str msg)]"

text \<open>\<^verbatim>\<open>^s(.)(.*?)\1(.*?)(?:\1([giI]+))?$\<close>\<close>

definition substitute_re :: re where
  "substitute_re = seq [Bol, Chr CHR ''s'', Grp 1 (Cls dot), Grp 2 (LazyStar dot), Ref 1,
     Grp 3 (LazyStar dot), Opt (Seq (Ref 1) (Grp 4 (Plus (\<lambda>c. c \<in> set ''giI'')))), Eol]"

definition cmd_substitute :: handler where
  "cmd_substitute args start end' =
     (case re_match substitute_re args of
        Some m \<Rightarrow>
          Inr [(''action'', Str ''substitute''),
               (''pattern'', opt_str (group m 2)),
               (''replacement'', opt_str (group m 3)),
               (''flags'', Str (case group m 4 of None \<Rightarrow> [] | Some f \<Rightarrow> f)),
               (''start'', opt_str start), (''end'', opt_str end')]
      | None \<Rightarrow> Inr (err_action ''Invalid substitute syntax''))"

text \<open>\<^verbatim>\<open>_cmd_substitute_all\<close> is reached only without a range: its name \<^verbatim>\<open>%s\<close> is no
  match of \<^verbatim>\<open>\w+\<close>, the name of a command with a range.\<close>

definition cmd_substitute_all :: handler where
  "cmd_substitute_all args start end' = cmd_substitute args (Some ''1'') (Some ''$'')"

text \<open>\<^verbatim>\<open>^(.)(.*?)\1(.*)$\<close>\<close>

definition global_re :: re where
  "global_re = seq [Bol, Grp 1 (Cls dot), Grp 2 (LazyStar dot), Ref 1, Grp 3 (Star dot), Eol]"

definition cmd_global :: handler where
  "cmd_global args start end' =
     (case re_match global_re args of
        Some m \<Rightarrow>
          Inr [(''action'', Str ''global''), (''pattern'', opt_str (group m 2)),
               (''command'', opt_str (group m 3)), (''inverse'', Bool False)]
      | None \<Rightarrow> Inr (err_action ''Invalid global syntax''))"

text \<open>\<^verbatim>\<open>result[k] = v\<close> on a dict that holds \<open>k\<close>, and the guard
  \<^verbatim>\<open>result.get("action") == name\<close> in front of it.\<close>

definition set_item :: "string \<Rightarrow> pyval \<Rightarrow> Action \<Rightarrow> Action" where
  "set_item k v a =
     (if k \<in> fst ` set a then map (\<lambda>(k', v'). if k' = k then (k', v) else (k', v')) a
      else a @ [(k, v)])"

definition set_if_action :: "string \<Rightarrow> string \<Rightarrow> pyval \<Rightarrow> error + Action \<Rightarrow> error + Action" where
  "set_if_action name k v r =
     (case r of
        Inl e \<Rightarrow> Inl e
      | Inr a \<Rightarrow> if map_of a ''action'' = Some (Str name) then Inr (set_item k v a) else Inr a)"

definition cmd_global_inverse :: handler where
  "cmd_global_inverse args start end' =
     set_if_action ''global'' ''inverse'' (Bool True) (cmd_global args start end')"

definition range_action :: "string \<Rightarrow> string option \<Rightarrow> string option \<Rightarrow> Action" where
  "range_action name start end' =
     [(''action'', Str name), (''start'', opt_str start), (''end'', opt_str end')]"

definition cmd_copy_to :: "string \<Rightarrow> handler" where
  "cmd_copy_to name args start end' =
     (case py_int (strip args) of
        Inr dest \<Rightarrow> Inr (range_action name start end' @ [(''destination'', Num dest)])
      | Inl e \<Rightarrow> Inr (err_action ''Invalid destination''))"

definition cmd_set :: handler where
  "cmd_set args start end' =
     (case split1 args of
        [] \<Rightarrow> Inl IndexError
      | [p0] \<Rightarrow> Inr [(''action'', Str ''set_option''), (''option'', Str p0)]
      | p0 # p1 # _ \<Rightarrow>
          Inr [(''action'', Str ''set_option''), (''option'', Str p0), (''value'', Str p1)])"

text \<open>\<^verbatim>\<open>^(\w+)\s*=\s*(.*)$\<close>\<close>

definition let_re :: re where
  "let_re = seq [Bol, Grp 1 (Plus isword), Star isspace, Chr CHR ''='', Star isspace,
     Grp 2 (Star dot), Eol]"

definition cmd_let :: handler where
  "cmd_let args start end' =
     (case re_match let_re args of
        Some m \<Rightarrow>
          Inr [(''action'', Str ''set_variable''), (''name'', opt_str (group m 1)),
               (''value'', opt_str (group m 2))]
      | None \<Rightarrow> Inr (err_action ''Invalid let syntax''))"

definition cmd_map :: handler where
  "cmd_map args start end' =
     (case split1 args of
        [k, c] \<Rightarrow>
          Inr [(''action'', Str ''map_key''), (''key'', Str k), (''command'', Str c),
               (''mode'', Str ''normal'')]
      | _ \<Rightarrow> Inr (err_action ''Invalid map syntax''))"

definition cmd_mode_map :: "string \<Rightarrow> handler" where
  "cmd_mode_map m args start end' =
     set_if_action ''map_key'' ''mode'' (Str m) (cmd_map args start end')"

text \<open>\<^verbatim>\<open>args.strip() if args else None\<close>\<close>

definition strip_or_none :: "string \<Rightarrow> pyval" where
  "strip_or_none args = (if args \<noteq> [] then Str (strip args) else NoneVal)"

definition cmd_write :: handler where
  "cmd_write args start end' = Inr (path_action ''save_file'' ''path'' args)"

definition cmd_write_quit :: handler where
  "cmd_write_quit args start end' = Inr (path_action ''save_and_quit'' ''path'' args)"

definition cmd_quit :: handler where
  "cmd_quit args start end' = Inr (act ''quit'')"

definition cmd_force_quit :: handler where
  "cmd_force_quit args start end' = Inr (act ''force_quit'')"

definition cmd_quit_all :: handler where
  "cmd_quit_all args start end' = Inr (act ''quit_all'')"

definition cmd_force_quit_all :: handler where
  "cmd_force_quit_all args start end' = Inr (act ''force_quit_all'')"

definition cmd_edit :: handler where
  "cmd_edit args start end' = Inr (path_action ''open_file'' ''path'' args)"

definition cmd_buffer_next :: handler where
  "cmd_buffer_next args start end' = Inr (act ''next_buffer'')"

definition cmd_buffer_prev :: handler where
  "cmd_buffer_prev args start end' = Inr (act ''prev_buffer'')"

definition cmd_buffer_close :: handler where
  "cmd_buffer_close args start end' = Inr (act ''close_buffer'')"

definition cmd_list_buffers :: handler where
  "cmd_list_buffers args start end' = Inr (act ''list_buffers'')"

definition cmd_delete :: handler where
  "cmd_delete args start end' = Inr (range_action ''delete_lines'' start end')"

definition cmd_yank :: handler where
  "cmd_yank args start end' = Inr (range_action ''yank_lines'' start end' @ [(''register'', Str (strip args))])"

definition cmd_put :: handler where
  "cmd_put args start end' = Inr (path_action ''put'' ''register'' (strip args))"

definition cmd_copy :: handler where
  "cmd_copy args start end' = cmd_copy_to ''copy_lines'' args start end'"

definition cmd_move :: handler where
  "cmd_move args start end' = cmd_copy_to ''move_lines'' args start end'"

definition cmd_join :: handler where
  "cmd_join args start end' = Inr (range_action ''join_lines_range'' start end')"

definition cmd_read :: handler where
  "cmd_read args start end' = Inr (path_action ''read_file'' ''path'' (strip args))"

definition cmd_shell :: handler where
  "cmd_shell args start end' = Inr (path_action ''shell_command'' ''command'' args)"

definition cmd_source :: handler where
  "cmd_source args start end' = Inr (path_action ''source_config'' ''path'' (strip args))"

definition cmd_nmap :: handler where
  "cmd_nmap args start end' = cmd_mode_map ''normal'' args start end'"

definition cmd_imap :: handler where
  "cmd_imap args start end' = cmd_mode_map ''insert'' args start end'"

definition cmd_vmap :: handler where
  "cmd_vmap args start end' = cmd_mode_map ''visual'' args start end'"

definition cmd_unmap :: handler where
  "cmd_unmap args start end' = Inr (path_action ''unmap_key'' ''key'' (strip args))"

definition cmd_nohlsearch :: handler where
  "cmd_nohlsearch args start end' = Inr (act ''clear_search_highlights'')"

definition cmd_syntax :: handler where
  "cmd_syntax args start end' = Inr (path_action ''syntax_command'' ''args'' args)"

definition cmd_highlight :: handler where
  "cmd_highlight args start end' = Inr (path_action ''highlight_command'' ''args'' args)"

definition cmd_colorscheme :: handler where
  "cmd_colorscheme args start end' = Inr (path_action ''set_colorscheme'' ''name'' (strip args))"

definition cmd_tabnew :: handler where
  "cmd_tabnew args start end' = Inr [(''action'', Str ''new_tab''), (''path'', strip_or_none args)]"

definition cmd_tabclose :: handler where
  "cmd_tabclose args start end' = Inr (act ''close_tab'')"

definition cmd_tabnext :: handler where
  "cmd_tabnext args start end' = Inr (act ''next_tab'')"

definition cmd_tabprev :: handler where
  "cmd_tabprev args start end' = Inr (act ''prev_tab'')"

definition cmd_vsplit :: handler where
  "cmd_vsplit args start end' = Inr [(''action'', Str ''vsplit''), (''path'', strip_or_none args)]"

definition cmd_split :: handler where
  "cmd_split args start end' = Inr [(''action'', Str ''hsplit''), (''path'', strip_or_none args)]"

definition cmd_close :: handler where
  "cmd_close args start end' = Inr (act ''close_window'')"

definition cmd_only :: handler where
  "cmd_only args start end' = Inr (act ''close_other_windows'')"

definition cmd_resize :: handler where
  "cmd_resize args start end' = Inr (path_action ''resize_window'' ''size'' (strip args))"

definition cmd_vertical_resize :: handler where
  "cmd_vertical_resize args start end' = Inr (path_action ''vertical_resize'' ''size'' (strip args))"

definition cmd_cd :: handler where
  "cmd_cd args start end' = Inr (path_action ''change_directory'' ''path'' (strip args))"

definition cmd_pwd :: handler where
  "cmd_pwd args start end' = Inr (act ''show_directory'')"

definition cmd_mkdir :: handler where
  "cmd_mkdir args start end' = Inr (path_action ''make_directory'' ''path'' (strip args))"

definition cmd_help :: handler where
  "cmd_help args start end' = Inr [(''action'', Str ''show_help''), (''topic'', strip_or_none args)]"

definition cmd_version :: handler where
  "cmd_version args start end' = Inr (act ''show_version'')"

definition ex_command_table :: "(string \<times> handler) list" where
  "ex_command_table =
     [(''w'', cmd_write), (''wq'', cmd_write_quit), (''q'', cmd_quit),
      (''q!'', cmd_force_quit), (''qa'', cmd_quit_all), (''qa!'', cmd_force_quit_all),
      (''e'', cmd_edit), (''bn'', cmd_buffer_next), (''bp'', cmd_buffer_prev),
      (''bd'', cmd_buffer_close), (''ls'', cmd_list_buffers), (''s'', cmd_substitute),
      (''%s'', cmd_substitute_all), (''g'', cmd_global), (''v'', cmd_global_inverse),
      (''d'', cmd_delete), (''y'', cmd_yank), (''pu'', cmd_put), (''co'', cmd_copy),
      (''t'', cmd_copy), (''m'', cmd_move), (''j'', cmd_join), (''r'', cmd_read),
      (''!'', cmd_shell), (''so'', cmd_source), (''set'', cmd_set), (''let'', cmd_let),
      (''map'', cmd_map), (''nmap'', cmd_nmap), (''imap'', cmd_imap), (''vmap'', cmd_vmap),
      (''unmap'', cmd_unmap), (''noh'', cmd_nohlsearch), (''syn'', cmd_syntax),
      (''hi'', cmd_highlight), (''colorscheme'', cmd_colorscheme),
      (''tabnew'', cmd_tabnew), (''tabc'', cmd_tabclose), (''tabn'', cmd_tabnext),
      (''tabp'', cmd_tabprev), (''vsp'', cmd_vsplit), (''sp'', cmd_split),
      (''clo'', cmd_close), (''on'', cmd_only), (''res'', cmd_resize),
      (''vert'', cmd_vertical_resize), (''cd'', cmd_cd), (''pwd'', cmd_pwd),
      (''mkdir'', cmd_mkdir), (''help'', cmd_help), (''version'', cmd_version)]"

definition ex_commands :: "string \<rightharpoonup> handler" where
  "ex_commands = py_dict ex_command_table"

text \<open>\<^verbatim>\<open>^(\d+|\$|\.)?(?:,(\d+|\$|\.))?(\w+)(.*)$\<close>\<close>

definition bound_re :: re where
  "bound_re = Alt (Plus isdecimal) (Alt (Chr CHR ''$'') (Chr CHR ''.''))"

definition range_re :: re where
  "range_re = seq [Bol, Opt (Grp 1 bound_re), Opt (Seq (Chr CHR '','') (Grp 2 bound_re)),
     Grp 3 (Plus isword), Grp 4 (Star dot), Eol]"

text \<open>\<^verbatim>\<open>_execute_command\<close>: the buffer is trimmed and pushed to the history; the first
  word is looked up in the table, and failing that the buffer is read as a range, a name
  and arguments. An exception of a handler leaves the method before the return to Normal
  mode.\<close>

definition push_history :: "string \<Rightarrow> CommandState \<Rightarrow> CommandState" where
  "push_history cmd cs =
     (let h = (if cmd \<in> set (history cs) then history cs
               else let h1 = cmd # history cs in if 100 < length h1 then butlast h1 else h1)
      in cs\<lparr>history := h, history_index := - 1\<rparr>)"

definition dispatch :: "string \<Rightarrow> error + Action option" where
  "dispatch cmd =
     (case split1 cmd of
        [] \<Rightarrow> Inl IndexError
      | cmd_name # rest \<Rightarrow>
          let cmd_args = (case rest of [] \<Rightarrow> [] | a # _ \<Rightarrow> a) in
          (case ex_commands cmd_name of
             Some h \<Rightarrow> map_sum id Some (h cmd_args None None)
           | None \<Rightarrow>
               (case re_match range_re cmd of
                  None \<Rightarrow> Inr None
                | Some m \<Rightarrow>
                    (case (group m 3, group m 4) of
                       (Some name, Some args) \<Rightarrow>
                         (case ex_commands name of
                            Some h \<Rightarrow> map_sum id Some (h args (group m 1) (group m 2))
                          | None \<Rightarrow> Inr None)
                     | _ \<Rightarrow> Inr None))))"

definition execute_command :: "VimMode \<Rightarrow> outcome" where
  "execute_command vm =
     (let cmd = strip (buffer (command_state vm)) in
      if cmd = [] then (enter_normal_mode vm, Inr None)
      else
        let vm1 = vm\<lparr>command_state := push_history cmd (command_state vm)\<rparr> in
        case dispatch cmd of
          Inl e \<Rightarrow> (vm1, Inl e)
        | Inr result \<Rightarrow>
            (enter_normal_mode vm1,
             Inr (Some (case result of
                          Some a \<Rightarrow> if a \<noteq> [] then a
                                    else [(''action'', Str ''command_executed''), (''command'', Str cmd)]
                        | None \<Rightarrow> [(''action'', Str ''command_executed''), (''command'', Str cmd)]))))"

section \<open>The Vim engine: keys in Command mode, and \<^verbatim>\<open>handle_key\<close>\<close>

definition with_command :: "VimMode \<Rightarrow> CommandState \<Rightarrow> outcome" where
  "with_command vm cs = (vm\<lparr>command_state := cs\<rparr>, Inr None)"

text \<open>\<^verbatim>\<open>buffer = history[history_index]\<close> after \<^verbatim>\<open>history_index\<close> moved to \<open>idx\<close>,
  then the cursor goes to the end of the buffer.\<close>

definition recall :: "VimMode \<Rightarrow> int \<Rightarrow> outcome" where
  "recall vm idx =
     (let cs = (command_state vm)\<lparr>history_index := idx\<rparr> in
      case py_index (history cs) idx of
        Inl e \<Rightarrow> (vm\<lparr>command_state := cs\<rparr>, Inl e)
      | Inr b \<Rightarrow> with_command vm (cs\<lparr>buffer := b, cursor_pos := int (length b)\<rparr>))"

definition handle_command_key :: "string \<Rightarrow> (string \<rightharpoonup> bool) \<Rightarrow> VimMode \<Rightarrow> outcome" where
  "handle_command_key key modifiers vm =
     (let cs = command_state vm; pos = cursor_pos cs in
      if key = ''Escape'' \<or> (ctrl_of modifiers \<and> key = ''c'') then
        (enter_normal_mode vm, Inr None)
      else if key = ''Return'' then execute_command vm
      else if key = ''BackSpace'' then
        (if 0 < pos then
           with_command vm
             (cs\<lparr>buffer := py_slice_to (buffer cs) (pos - 1) @ py_slice_from (buffer cs) pos,
                 cursor_pos := pos - 1\<rparr>)
         else if buffer cs = [] then (enter_normal_mode vm, Inr None)
         else (vm, Inr None))
      else if key = ''Left'' then
        (if 0 < pos then with_command vm (cs\<lparr>cursor_pos := pos - 1\<rparr>) else (vm, Inr None))
      else if key = ''Right'' then
        (if pos < int (length (buffer cs)) then with_command vm (cs\<lparr>cursor_pos := pos + 1\<rparr>)
         else (vm, Inr None))
      else if key = ''Up'' then
        (if history cs \<noteq> [] \<and> history_index cs < int (length (history cs)) - 1
         then recall vm (history_index cs + 1)
         else (vm, Inr None))
      else if key = ''Down'' then
        (if 0 < history_index cs then recall vm (history_index cs - 1)
         else if history_index cs = 0 then
           with_command vm (cs\<lparr>history_index := - 1, buffer := [], cursor_pos := 0\<rparr>)
         else with_command vm (cs\<lparr>cursor_pos := int (length (buffer cs))\<rparr>))
      else if key = ''Tab'' then (vm, Inr (Some (act ''command_complete'')))
      else if length key = 1 then
        with_command vm
          (cs\<lparr>buffer := py_slice_to (buffer cs) pos @ key @ py_slice_from (buffer cs) pos,
              cursor_pos := pos + 1\<rparr>)
      else (vm, Inr None))"

definition handle_key :: "string \<Rightarrow> (string \<rightharpoonup> bool) \<Rightarrow> VimMode \<Rightarrow> outcome" where
  "handle_key key modifiers vm =
     (case mode vm of
        INSERT \<Rightarrow> handle_insert_key key modifiers vm
      | NORMAL \<Rightarrow> handle_normal_key key modifiers vm
      | VISUAL \<Rightarrow> handle_visual_key key modifiers vm
      | VISUAL_LINE \<Rightarrow> handle_visual_key key modifiers vm
      | VISUAL_BLOCK \<Rightarrow> handle_visual_key key modifiers vm
      | COMMAND \<Rightarrow> handle_command_key key modifiers vm
      | REPLACE \<Rightarrow> handle_replace_key key modifiers vm)"

text \<open>A sequence of key presses without modifiers, each handled in the state the
  previous one left; the answer to every key is kept. An exception ends the sequence.\<close>

fun handle_keys :: "string list \<Rightarrow> VimMode \<Rightarrow> VimMode \<times> (error + Action option list)" where
  "handle_keys [] vm = (vm, Inr [])"
| "handle_keys (key # keys) vm =
     (case handle_key key Map.empty vm of
        (vm1, Inl e) \<Rightarrow> (vm1, Inl e)
      | (vm1, Inr a) \<Rightarrow>
          (case handle_keys keys vm1 of
             (vm2, Inl e) \<Rightarrow> (vm2, Inl e)
           | (vm2, Inr as) \<Rightarrow> (vm2, Inr (a # as))))"

section \<open>Text objects\<close>

text \<open>A \<^verbatim>\<open>TextObject\<close> as far as the finder reads it: its name and whether it is a
  balanced pair (the two pattern strings and the inclusive flags are never read).\<close>

record TextObject =
  obj_name :: string
  nested :: bool
  match_balanced :: bool

definition text_object :: "string \<Rightarrow> bool \<Rightarrow> bool \<Rightarrow> TextObject" where
  "text_object n b ns = \<lparr>obj_name = n, nested = ns, match_balanced = b\<rparr>"

definition TEXT_OBJECTS :: "string \<rightharpoonup> TextObject" where
  "TEXT_OBJECTS = py_dict
     [(''('', text_object ''parentheses'' True False), ('')'', text_object ''parentheses'' True False),
      (''['', text_object ''brackets'' True False), ('']'', text_object ''brackets'' True False),
      (''{'', text_object ''braces'' True False), (''}'', text_object ''braces'' True False),
      (''<'', text_object ''angle'' True False), (''>'', text_object ''angle'' True False),
      ([CHR 0x22], text_object ''double_quote'' False False),
      ([CHR 0x27], text_object ''single_quote'' False False),
      (''`'', text_object ''backtick'' False False),
      (''w'', text_object ''word'' False False), (''W'', text_object ''WORD'' False False),
      (''s'', text_object ''sentence'' False False), (''p'', text_object ''paragraph'' False False),
      (''f'', text_object ''function'' True True), (''c'', text_object ''class'' True True),
      (''t'', text_object ''tag'' True True), (''i'', text_object ''indent'' False False),
      (''h'', text_object ''heading'' False False), (''l'', text_object ''link'' True False),
      (''k'', text_object ''code_block'' False False)]"

type_synonym bounds = "(int \<times> int) option"

text \<open>\<^verbatim>\<open>return (start + 1, end)\<close> for the inner object, \<^verbatim>\<open>(start, end + 1)\<close> around it.\<close>

definition pair_bounds :: "bool \<Rightarrow> int \<Rightarrow> int \<Rightarrow> bounds" where
  "pair_bounds inner start end' = (if inner then Some (start + 1, end') else Some (start, end' + 1))"

subsection \<open>Balanced pairs\<close>

definition pairs :: "string \<rightharpoonup> string" where
  "pairs = py_dict [(''('', '')''), (''['', '']''), (''{'', ''}''),
                    ('')'', ''(''), ('']'', ''[''), (''}'', ''{'')]"

text \<open>The backward loop \<^verbatim>\<open>for i in range(pos, -1, -1)\<close> at index \<open>i\<close> with the depth
  counted so far: \<^verbatim>\<open>content[i]\<close> is read first, and raises when \<open>i\<close> is beyond the
  text. The result is \<^verbatim>\<open>start\<close>, \<open>-1\<close> when the loop ends without a \<^verbatim>\<open>break\<close>.\<close>

fun find_opening :: "string \<Rightarrow> int \<Rightarrow> string \<Rightarrow> string \<Rightarrow> int \<Rightarrow> nat \<Rightarrow> error + int" where
  "find_opening txt pos open_char close_char depth i =
     (case py_index txt (int i) of
        Inl e \<Rightarrow> Inl e
      | Inr c \<Rightarrow>
          if [c] = close_char \<and> int i \<noteq> pos then
            (case i of 0 \<Rightarrow> Inr (- 1)
             | Suc j \<Rightarrow> find_opening txt pos open_char close_char (depth + 1) j)
          else if [c] = open_char then
            (if depth = 0 then Inr (int i)
             else (case i of 0 \<Rightarrow> Inr (- 1)
                   | Suc j \<Rightarrow> find_opening txt pos open_char close_char (depth - 1) j))
          else (case i of 0 \<Rightarrow> Inr (- 1)
                | Suc j \<Rightarrow> find_opening txt pos open_char close_char depth j))"

text \<open>The forward loop \<^verbatim>\<open>for i in range(start, len(content))\<close> over the characters
  from \<open>i\<close> on; the result is \<^verbatim>\<open>end\<close>, \<open>-1\<close> without a \<^verbatim>\<open>break\<close>.\<close>

fun find_closing :: "string \<Rightarrow> string \<Rightarrow> string \<Rightarrow> int \<Rightarrow> int \<Rightarrow> int" where
  "find_closing open_char close_char [] i depth = - 1"
| "find_closing open_char close_char (c # cs) i depth =
     (if [c] = open_char then find_closing open_char close_char cs (i + 1) (depth + 1)
      else if [c] = close_char then
        (if depth - 1 = 0 then i
         else find_closing open_char close_char cs (i + 1) (depth - 1))
      else find_closing open_char close_char cs (i + 1) depth)"

definition find_balanced_pair :: "string \<Rightarrow> int \<Rightarrow> string \<Rightarrow> bool \<Rightarrow> error + bounds" where
  "find_balanced_pair txt pos pair_char inner =
     (let open_char = (if str_in pair_char ''([{'' then pair_char
                       else (case pairs pair_char of Some c \<Rightarrow> c | None \<Rightarrow> pair_char));
          close_char = (case pairs open_char of Some c \<Rightarrow> c | None \<Rightarrow> open_char)
      in case (if pos < 0 then Inr (- 1)
               else find_opening txt pos open_char close_char 0 (nat pos)) of
           Inl e \<Rightarrow> Inl e
         | Inr start \<Rightarrow>
             if start = - 1 then Inr None
             else let end' = find_closing open_char close_char (drop (nat start) txt) start 0
                  in if end' = - 1 then Inr None else Inr (pair_bounds inner start end'))"

subsection \<open>Quotes\<close>

text \<open>\<^verbatim>\<open>for i in range(pos, -1, -1)\<close>: a quote preceded by a backslash is skipped.\<close>

fun find_quote_start :: "string \<Rightarrow> string \<Rightarrow> nat \<Rightarrow> error + int" where
  "find_quote_start txt quote i =
     (case py_index txt (int i) of
        Inl e \<Rightarrow> Inl e
      | Inr c \<Rightarrow>
          if [c] = quote \<and> \<not> (0 < i \<and> txt ! (i - 1) = backslash) then Inr (int i)
          else (case i of 0 \<Rightarrow> Inr (- 1) | Suc j \<Rightarrow> find_quote_start txt quote j))"

text \<open>\<^verbatim>\<open>for i in range(start + 1, len(content))\<close>, with \<open>prev\<close> the character before
  index \<open>i\<close>.\<close>

fun find_quote_end :: "string \<Rightarrow> char \<Rightarrow> string \<Rightarrow> int \<Rightarrow> int" where
  "find_quote_end quote prev [] i = - 1"
| "find_quote_end quote prev (c # cs) i =
     (if [c] = quote \<and> prev \<noteq> backslash then i else find_quote_end quote c cs (i + 1))"

definition find_quote :: "string \<Rightarrow> int \<Rightarrow> string \<Rightarrow> bool \<Rightarrow> error + bounds" where
  "find_quote txt pos quote inner =
     (case (if pos < 0 then Inr (- 1) else find_quote_start txt quote (nat pos)) of
        Inl e \<Rightarrow> Inl e
      | Inr start \<Rightarrow>
          if start = - 1 then Inr None
          else let end' = find_quote_end quote (txt ! nat start)
                            (drop (nat start + 1) txt) (start + 1)
               in if end' = - 1 then Inr None else Inr (pair_bounds inner start end'))"

subsection \<open>Words\<close>

text \<open>\<^verbatim>\<open>while start > 0 and word_chars(content[start - 1])\<close>, run from a start inside the
  text.\<close>

fun word_start :: "(char \<Rightarrow> bool) \<Rightarrow> string \<Rightarrow> nat \<Rightarrow> nat" where
  "word_start word_chars txt 0 = 0"
| "word_start word_chars txt (Suc n) =
     (if word_chars (txt ! n) then word_start word_chars txt n else Suc n)"

text \<open>\<^verbatim>\<open>while end < len(content) and word_chars(content[end])\<close>: a negative \<open>end\<close> indexes
  from the end of the text, and raises when it is beyond its start.\<close>

function word_end :: "(char \<Rightarrow> bool) \<Rightarrow> string \<Rightarrow> int \<Rightarrow> error + int" where
  "word_end word_chars txt e =
     (if e < int (length txt) then
        (case py_index txt e of
           Inl err \<Rightarrow> Inl err
         | Inr c \<Rightarrow> if word_chars c then word_end word_chars txt (e + 1) else Inr e)
      else Inr e)"
  by pat_completeness auto
termination
  by (relation "measure (\<lambda>(word_chars, txt, e). nat (int (length txt) - e))") auto

definition find_word :: "string \<Rightarrow> int \<Rightarrow> bool \<Rightarrow> bool \<Rightarrow> error + bounds" where
  "find_word txt pos big_word inner =
     (if int (length txt) \<le> pos then Inr None
      else
        let word_chars = (if big_word then (\<lambda>c. \<not> isspace c) else (\<lambda>c. isalnum c \<or> c = CHR ''_''));
            start = (if 0 < pos then int (word_start word_chars txt (nat pos)) else pos)
        in case word_end word_chars txt pos of
             Inl e \<Rightarrow> Inl e
           | Inr end' \<Rightarrow> if start = end' then Inr None else Inr (Some (start, end')))"

subsection \<open>Paragraphs\<close>

text \<open>\<^verbatim>\<open>while start_line > 0 and all_lines[start_line - 1].strip()\<close>\<close>

fun paragraph_start :: "string list \<Rightarrow> nat \<Rightarrow> nat" where
  "paragraph_start all_lines 0 = 0"
| "paragraph_start all_lines (Suc n) =
     (if strip (all_lines ! n) \<noteq> [] then paragraph_start all_lines n else Suc n)"

text \<open>\<^verbatim>\<open>while end_line < len(all_lines) - 1 and all_lines[end_line + 1].strip()\<close>\<close>

function paragraph_end :: "string list \<Rightarrow> nat \<Rightarrow> nat" where
  "paragraph_end all_lines e =
     (if int e < int (length all_lines) - 1 \<and> strip (all_lines ! (e + 1)) \<noteq> []
      then paragraph_end all_lines (e + 1) else e)"
  by pat_completeness auto
termination
  by (relation "measure (\<lambda>(all_lines, e). length all_lines - e)") auto

text \<open>\<^verbatim>\<open>sum(len(all_lines[i]) + 1 for i in range(n))\<close>\<close>

definition lines_length :: "string list \<Rightarrow> nat \<Rightarrow> int" where
  "lines_length all_lines n = (\<Sum>l \<leftarrow> take n all_lines. int (length l) + 1)"

definition find_paragraph :: "string \<Rightarrow> int \<Rightarrow> bool \<Rightarrow> error + bounds" where
  "find_paragraph txt pos inner =
     (let lines = count_list (py_slice_to txt pos) newline;
          all_lines = split_on newline txt;
          start_line = paragraph_start all_lines lines;
          end_line = paragraph_end all_lines lines
      in Inr (Some (lines_length all_lines start_line,
                    lines_length all_lines (end_line + 1) - 1)))"

subsection \<open>Searching with a pattern\<close>

text \<open>\<^verbatim>\<open>re.search\<close> tries the pattern at every offset from the left; the answer is the
  offset of the match and the matcher's state at its end. \<^verbatim>\<open>re.finditer\<close> goes on
  behind each match; while \<open>skip\<close> is positive the offset lies inside the previous
  match. None of the source's patterns matches the empty string.\<close>

fun search_at :: "re \<Rightarrow> nat \<Rightarrow> string \<Rightarrow> (nat \<times> mstate) option" where
  "search_at r i [] =
     (case rmatch r \<lparr>mpos = i, mrest = [], mgroups = []\<rparr> of
        [] \<Rightarrow> None | st # _ \<Rightarrow> Some (i, st))"
| "search_at r i (c # cs) =
     (case rmatch r \<lparr>mpos = i, mrest = c # cs, mgroups = []\<rparr> of
        [] \<Rightarrow> search_at r (Suc i) cs | st # _ \<Rightarrow> Some (i, st))"

definition re_search :: "re \<Rightarrow> string \<Rightarrow> (nat \<times> mstate) option" where
  "re_search r s = search_at r 0 s"

fun finditer_at :: "re \<Rightarrow> nat \<Rightarrow> nat \<Rightarrow> string \<Rightarrow> (nat \<times> mstate) list" where
  "finditer_at r i skip [] =
     (if 0 < skip then []
      else (case rmatch r \<lparr>mpos = i, mrest = [], mgroups = []\<rparr> of
              [] \<Rightarrow> [] | st # _ \<Rightarrow> [(i, st)]))"
| "finditer_at r i skip (c # cs) =
     (if 0 < skip then finditer_at r (Suc i) (skip - 1) cs
      else (case rmatch r \<lparr>mpos = i, mrest = c # cs, mgroups = []\<rparr> of
              [] \<Rightarrow> finditer_at r (Suc i) 0 cs
            | st # _ \<Rightarrow> (i, st) # finditer_at r (Suc i) (mpos st - i - 1) cs))"

definition finditer :: "re \<Rightarrow> string \<Rightarrow> (nat \<times> mstate) list" where
  "finditer r s = finditer_at r 0 0 s"

subsection \<open>Sentences\<close>

text \<open>\<^verbatim>\<open>[.!?]+\s+\<close>\<close>

definition sentence_re :: re where
  "sentence_re = Seq (Plus (\<lambda>c. c \<in> set ''.!?'')) (Plus isspace)"

definition find_sentence :: "string \<Rightarrow> int \<Rightarrow> bool \<Rightarrow> error + bounds" where
  "find_sentence txt pos inner =
     (let start = foldl (\<lambda>start m. int (mpos (snd m))) 0
                    (finditer sentence_re (py_slice_to txt pos));
          end' = (case re_search sentence_re (py_slice_from txt pos) of
                    Some m \<Rightarrow> pos + int (mpos (snd m))
                  | None \<Rightarrow> int (length txt))
      in Inr (Some (start, end')))"

subsection \<open>Tags\<close>

text \<open>\<^verbatim>\<open><([^/!>][^>]*)>\<close>\<close>

definition open_tag_re :: re where
  "open_tag_re = seq [Chr CHR ''<'',
     Grp 1 (Seq (Cls (\<lambda>c. c \<notin> set ''/!>'')) (Star (\<lambda>c. c \<noteq> CHR ''>''))), Chr CHR ''>'']"

text \<open>\<^verbatim>\<open>s.split()[0]\<close>: the first word of \<open>s\<close>, an \<^verbatim>\<open>IndexError\<close> when there is none.\<close>

definition first_word :: "string \<Rightarrow> error + string" where
  "first_word s =
     (let s1 = dropWhile isspace s
      in if s1 = [] then Inl IndexError else Inr (takeWhile (\<lambda>c. \<not> isspace c) s1))"

text \<open>The loop over the opening tags before the cursor keeps the last tag's name and
  end; \<^verbatim>\<open>start\<close> is \<open>-1\<close> when there is none.\<close>

fun last_open_tag :: "(nat \<times> mstate) list \<Rightarrow> string \<times> int \<Rightarrow> error + string \<times> int" where
  "last_open_tag [] acc = Inr acc"
| "last_open_tag (m # ms) acc =
     (case first_word (case group (snd m) 1 of Some g \<Rightarrow> g | None \<Rightarrow> []) of
        Inl e \<Rightarrow> Inl e
      | Inr tag_name \<Rightarrow> last_open_tag ms (tag_name, int (mpos (snd m))))"

text \<open>\<^verbatim>\<open>for i in range(start, len(content))\<close> with \<^verbatim>\<open>content[i:].startswith(...)\<close>\<close>

fun find_close_tag :: "string \<Rightarrow> string \<Rightarrow> string \<Rightarrow> int \<Rightarrow> int \<Rightarrow> int" where
  "find_close_tag open_tag close_tag [] i depth = - 1"
| "find_close_tag open_tag close_tag (c # cs) i depth =
     (if startswith (c # cs) open_tag then find_close_tag open_tag close_tag cs (i + 1) (depth + 1)
      else if startswith (c # cs) close_tag then
        (if depth - 1 = 0 then i
         else find_close_tag open_tag close_tag cs (i + 1) (depth - 1))
      else find_close_tag open_tag close_tag cs (i + 1) depth)"

definition find_tag :: "string \<Rightarrow> int \<Rightarrow> bool \<Rightarrow> error + bounds" where
  "find_tag txt pos inner =
     (case last_open_tag (finditer open_tag_re (py_slice_to txt (pos + 1))) ([], - 1) of
        Inl e \<Rightarrow> Inl e
      | Inr (tag_name, start) \<Rightarrow>
          if start = - 1 then Inr None
          else
            let close_tag = ''</'' @ tag_name @ ''>'';
                end' = find_close_tag (''<'' @ tag_name) close_tag (drop (nat start) txt) start 1
            in if end' = - 1 then Inr None
               else if inner then Inr (Some (start, end'))
               else Inr (Some (start - int (length (''<'' @ tag_name @ ''>'')),
                               end' + int (length close_tag))))"

subsection \<open>Markdown links and code blocks\<close>

text \<open>\<^verbatim>\<open>\[([^\]]+)\]\(([^)]+)\)\<close>\<close>

definition link_re :: re where
  "link_re = seq [Chr CHR ''['', Grp 1 (Plus (\<lambda>c. c \<noteq> CHR '']'')), Chr CHR '']'',
     Chr CHR ''('', Grp 2 (Plus (\<lambda>c. c \<noteq> CHR '')'')), Chr CHR '')'']"

text \<open>The first match with \<^verbatim>\<open>match.start() <= pos <= match.end()\<close>\<close>

definition match_around :: "int \<Rightarrow> (nat \<times> mstate) list \<Rightarrow> (nat \<times> mstate) option" where
  "match_around pos ms = find (\<lambda>m. int (fst m) \<le> pos \<and> pos \<le> int (mpos (snd m))) ms"

definition find_markdown_link :: "string \<Rightarrow> int \<Rightarrow> bool \<Rightarrow> error + bounds" where
  "find_markdown_link txt pos inner =
     (case match_around pos (finditer link_re txt) of
        None \<Rightarrow> Inr None
      | Some m \<Rightarrow>
          if inner then
            Inr (Some (int (fst m) + 1,
                       int (fst m) + 1
                         + int (length (case group (snd m) 1 of Some g \<Rightarrow> g | None \<Rightarrow> []))))
          else Inr (Some (int (fst m), int (mpos (snd m)))))"

text \<open>\<^verbatim>\<open>```.*?\n(.*?)```\<close> with \<^verbatim>\<open>re.DOTALL\<close>, where the dot matches every character.\<close>

definition code_block_re :: re where
  "code_block_re = seq [Chr CHR ''`'', Chr CHR ''`'', Chr CHR ''`'', LazyStar (\<lambda>c. True),
     Chr newline, Grp 1 (LazyStar (\<lambda>c. True)), Chr CHR ''`'', Chr CHR ''`'', Chr CHR ''`'']"

text \<open>\<^verbatim>\<open>s.find(c, start)\<close> and \<^verbatim>\<open>s.rfind(c, start, end)\<close> for a one-character \<open>c\<close>:
  the index of the first or last \<open>c\<close> in the slice, \<open>-1\<close> when there is none.\<close>

fun index_from :: "char \<Rightarrow> string \<Rightarrow> int \<Rightarrow> int" where
  "index_from c [] i = - 1"
| "index_from c (x # xs) i = (if x = c then i else index_from c xs (i + 1))"

fun rindex_from :: "char \<Rightarrow> string \<Rightarrow> int \<Rightarrow> int" where
  "rindex_from c [] i = - 1"
| "rindex_from c (x # xs) i =
     (let r = rindex_from c xs (i + 1) in if r \<noteq> - 1 then r else if x = c then i else - 1)"

definition py_find :: "string \<Rightarrow> char \<Rightarrow> int \<Rightarrow> int" where
  "py_find s c start = index_from c (py_slice_from s start) (int (slice_bound (length s) start))"

definition py_rfind :: "string \<Rightarrow> char \<Rightarrow> int \<Rightarrow> int \<Rightarrow> int" where
  "py_rfind s c start end' =
     rindex_from c (py_slice s start end') (int (slice_bound (length s) start))"

definition find_code_block :: "string \<Rightarrow> int \<Rightarrow> bool \<Rightarrow> error + bounds" where
  "find_code_block txt pos inner =
     (case match_around pos (finditer code_block_re txt) of
        None \<Rightarrow> Inr None
      | Some m \<Rightarrow>
          if inner then Inr (Some (py_find txt newline (int (fst m)) + 1, int (mpos (snd m)) - 3))
          else Inr (Some (int (fst m), int (mpos (snd m)))))"

subsection \<open>\<^verbatim>\<open>find_object\<close>\<close>

text \<open>The finder's state is its map of custom objects (\<^verbatim>\<open>add_custom_object\<close> stores an
  object under its name). \<^verbatim>\<open>TEXT_OBJECTS.get(t) or custom_objects.get(t)\<close> is the
  built-in object when there is one, since every object is truthy.\<close>

definition add_custom_object :: "TextObject \<Rightarrow> (string \<rightharpoonup> TextObject) \<Rightarrow> (string \<rightharpoonup> TextObject)" where
  "add_custom_object obj custom_objects = custom_objects(obj_name obj \<mapsto> obj)"

definition find_object ::
  "(string \<rightharpoonup> TextObject) \<Rightarrow> string \<Rightarrow> int \<Rightarrow> string \<Rightarrow> bool \<Rightarrow> error + bounds" where
  "find_object custom_objects txt pos obj_type inner =
     (case (case TEXT_OBJECTS obj_type of Some obj \<Rightarrow> Some obj | None \<Rightarrow> custom_objects obj_type) of
        None \<Rightarrow> Inr None
      | Some obj \<Rightarrow>
          if match_balanced obj \<and> str_in obj_type ''()[]{}'' then
            find_balanced_pair txt pos obj_type inner
          else if str_in obj_type ([CHR 0x22, CHR 0x27] @ ''`'') then
            find_quote txt pos obj_type inner
          else if str_in obj_type ''wW'' then find_word txt pos (obj_type = ''W'') inner
          else if obj_type = ''p'' then find_paragraph txt pos inner
          else if obj_type = ''s'' then find_sentence txt pos inner
          else if obj_type = ''t'' then find_tag txt pos inner
          else if obj_type = ''l'' then find_markdown_link txt pos inner
          else if obj_type = ''k'' then find_code_block txt pos inner
          else Inr None)"

section \<open>Selections and multiple cursors\<close>

record Selection =
  anchor :: int
  head :: int
  primary :: bool

definition Selection :: "int \<Rightarrow> int \<Rightarrow> bool \<Rightarrow> Selection" where
  "Selection a h p = \<lparr>anchor = a, head = h, primary = p\<rparr>"

definition sel_start :: "Selection \<Rightarrow> int" where
  "sel_start sel = min (anchor sel) (head sel)"

definition sel_end :: "Selection \<Rightarrow> int" where
  "sel_end sel = max (anchor sel) (head sel)"

definition is_empty :: "Selection \<Rightarrow> bool" where
  "is_empty sel = (anchor sel = head sel)"

text \<open>A \<^verbatim>\<open>MultiCursorManager\<close>: its list of selections and the custom objects of its
  text object finder. Every method stores selections it has just built, so no selection
  object is shared between two places of a list, and the list is a list of values.\<close>

record MultiCursorManager =
  selections :: "Selection list"
  custom_objects :: "string \<rightharpoonup> TextObject"

definition init_cursors :: MultiCursorManager where
  "init_cursors = \<lparr>selections = [Selection 0 0 True], custom_objects = Map.empty\<rparr>"

definition primary_selection :: "MultiCursorManager \<Rightarrow> Selection" where
  "primary_selection m =
     (case find primary (selections m) of
        Some sel \<Rightarrow> sel
      | None \<Rightarrow> (case selections m of [] \<Rightarrow> Selection 0 0 True | sel # _ \<Rightarrow> sel))"

definition add_selection :: "int \<Rightarrow> int \<Rightarrow> bool \<Rightarrow> MultiCursorManager \<Rightarrow> MultiCursorManager" where
  "add_selection a h p m =
     (let sels = (if p then map (\<lambda>sel. sel\<lparr>primary := False\<rparr>) (selections m) else selections m)
      in m\<lparr>selections := sels @ [Selection a h p]\<rparr>)"

definition remove_selection :: "int \<Rightarrow> MultiCursorManager \<Rightarrow> MultiCursorManager" where
  "remove_selection index m =
     (if 0 \<le> index \<and> index < int (length (selections m)) then
        let was_primary = primary (selections m ! nat index);
            sels = take (nat index) (selections m) @ drop (nat index + 1) (selections m)
        in if was_primary \<and> sels \<noteq> []
           then m\<lparr>selections := (hd sels)\<lparr>primary := True\<rparr> # tl sels\<rparr>
           else m\<lparr>selections := sels\<rparr>
      else m)"

definition clear_selections :: "MultiCursorManager \<Rightarrow> MultiCursorManager" where
  "clear_selections m =
     (let p = primary_selection m in m\<lparr>selections := [Selection (head p) (head p) True]\<rparr>)"

definition select_all :: "int \<Rightarrow> MultiCursorManager \<Rightarrow> MultiCursorManager" where
  "select_all content_length m = m\<lparr>selections := [Selection 0 content_length True]\<rparr>"

text \<open>\<^verbatim>\<open>split_selection_by_line\<close>: the loop over the lines, \<open>i\<close> the line's number and
  \<open>pos\<close> its first offset.\<close>

fun line_selections :: "Selection list \<Rightarrow> string list \<Rightarrow> nat \<Rightarrow> int \<Rightarrow> Selection list" where
  "line_selections sels [] i pos = []"
| "line_selections sels (line # lines) i pos =
     (let line_end = pos + int (length line)
      in map (\<lambda>sel. Selection pos line_end (i = 0))
           (filter (\<lambda>sel. sel_start sel \<le> line_end \<and> pos \<le> sel_end sel) sels)
         @ line_selections sels lines (i + 1) (line_end + 1))"

definition split_selection_by_line :: "string \<Rightarrow> MultiCursorManager \<Rightarrow> MultiCursorManager" where
  "split_selection_by_line txt m =
     (let new_selections = line_selections (selections m) (split_on newline txt) 0 0
      in case map (\<lambda>sel. sel\<lparr>primary := False\<rparr>) new_selections of
           [] \<Rightarrow> m
         | sel # sels \<Rightarrow> m\<lparr>selections := sel\<lparr>primary := True\<rparr> # sels\<rparr>)"

text \<open>New selections get \<^verbatim>\<open>primary = (len(new_selections) == 0)\<close>: the first one only.\<close>

definition first_primary :: "(int \<times> int) list \<Rightarrow> Selection list" where
  "first_primary bs = map (\<lambda>(k, b). Selection (fst b) (snd b) (k = 0)) (enumerate 0 bs)"

text \<open>\<^verbatim>\<open>split_selection_by_regex\<close>: the pattern is the caller's, so \<open>finditer_of\<close>
  stands for \<^verbatim>\<open>re.finditer(pattern, \<cdot>)\<close>, the spans of its matches in a string or the
  exception it raises. An exception leaves the selections as they were.\<close>

fun regex_bounds ::
  "(string \<Rightarrow> error + (nat \<times> nat) list) \<Rightarrow> string \<Rightarrow> Selection list \<Rightarrow> error + (int \<times> int) list" where
  "regex_bounds finditer_of txt [] = Inr []"
| "regex_bounds finditer_of txt (sel # sels) =
     (case finditer_of (py_slice txt (sel_start sel) (sel_end sel)) of
        Inl e \<Rightarrow> Inl e
      | Inr ms \<Rightarrow>
          (case regex_bounds finditer_of txt sels of
             Inl e \<Rightarrow> Inl e
           | Inr bs \<Rightarrow>
               Inr (map (\<lambda>(s, e). (sel_start sel + int s, sel_start sel + int e)) ms @ bs)))"

definition split_selection_by_regex ::
  "string \<Rightarrow> (string \<Rightarrow> error + (nat \<times> nat) list) \<Rightarrow> MultiCursorManager
     \<Rightarrow> MultiCursorManager \<times> (error + unit)" where
  "split_selection_by_regex txt finditer_of m =
     (case regex_bounds finditer_of txt (selections m) of
        Inl e \<Rightarrow> (m, Inl e)
      | Inr bs \<Rightarrow> (if bs \<noteq> [] then m\<lparr>selections := first_primary bs\<rparr> else m, Inr ()))"

text \<open>\<^verbatim>\<open>select_text_object\<close>: one object per cursor, cursors without one are dropped.\<close>

fun object_bounds ::
  "(string \<rightharpoonup> TextObject) \<Rightarrow> string \<Rightarrow> string \<Rightarrow> bool \<Rightarrow> Selection list \<Rightarrow> error + (int \<times> int) list" where
  "object_bounds custom txt obj_type inner [] = Inr []"
| "object_bounds custom txt obj_type inner (sel # sels) =
     (case find_object custom txt (head sel) obj_type inner of
        Inl e \<Rightarrow> Inl e
      | Inr b \<Rightarrow>
          (case object_bounds custom txt obj_type inner sels of
             Inl e \<Rightarrow> Inl e
           | Inr bs \<Rightarrow> Inr ((case b of None \<Rightarrow> [] | Some x \<Rightarrow> [x]) @ bs)))"

definition select_text_object ::
  "string \<Rightarrow> string \<Rightarrow> bool \<Rightarrow> MultiCursorManager \<Rightarrow> MultiCursorManager \<times> (error + unit)" where
  "select_text_object txt obj_type inner m =
     (case object_bounds (custom_objects m) txt obj_type inner (selections m) of
        Inl e \<Rightarrow> (m, Inl e)
      | Inr bs \<Rightarrow> (if bs \<noteq> [] then m\<lparr>selections := first_primary bs\<rparr> else m, Inr ()))"

definition add_cursor_above :: "string \<Rightarrow> MultiCursorManager \<Rightarrow> MultiCursorManager" where
  "add_cursor_above txt m =
     (let p = primary_selection m;
          line_start = py_rfind txt newline 0 (head p)
      in if line_start = - 1 then m
         else
           let prev = py_rfind txt newline 0 line_start;
               prev_line_start = (if prev = - 1 then 0 else prev + 1);
               column = head p - line_start - 1;
               e = py_find txt newline prev_line_start;
               prev_line_end = (if e = - 1 then int (length txt) else e);
               new_pos = min (prev_line_start + column) (prev_line_end - 1)
           in add_selection new_pos new_pos False m)"

definition add_cursor_below :: "string \<Rightarrow> MultiCursorManager \<Rightarrow> MultiCursorManager" where
  "add_cursor_below txt m =
     (let p = primary_selection m;
          line_end = py_find txt newline (head p)
      in if line_end = - 1 then m
         else
           let next_line_start = line_end + 1;
               e = py_find txt newline next_line_start;
               next_line_end = (if e = - 1 then int (length txt) else e);
               s = py_rfind txt newline 0 (head p);
               line_start = (if s = - 1 then 0 else s + 1);
               column = head p - line_start;
               new_pos = min (next_line_start + column) (next_line_end - 1)
           in add_selection new_pos new_pos False m)"

definition flip_selections :: "MultiCursorManager \<Rightarrow> MultiCursorManager" where
  "flip_selections m =
     m\<lparr>selections := map (\<lambda>sel. sel\<lparr>anchor := head sel, head := anchor sel\<rparr>) (selections m)\<rparr>"

text \<open>\<^verbatim>\<open>merge_consecutive_selections\<close>: the loop over the sorted selections, with
  \<open>merged\<close> kept in reverse, its last element first.\<close>

fun merge_loop :: "Selection list \<Rightarrow> Selection list \<Rightarrow> Selection list" where
  "merge_loop [] merged = rev merged"
| "merge_loop (sel # sels) [] = merge_loop sels [sel]"
| "merge_loop (sel # sels) (lst # merged) =
     (if sel_start sel \<le> sel_end lst then
        merge_loop sels
          (Selection (sel_start lst) (max (sel_end lst) (sel_end sel))
             (primary lst \<or> primary sel) # merged)
      else merge_loop sels (sel # lst # merged))"

definition merge_consecutive_selections :: "MultiCursorManager \<Rightarrow> MultiCursorManager" where
  "merge_consecutive_selections m =
     (if length (selections m) < 2 then m
      else
        let sorted_sels = sort_key sel_start (selections m);
            merged = merge_loop (tl sorted_sels) [hd sorted_sels]
        in if \<not> list_ex primary merged \<and> merged \<noteq> []
           then m\<lparr>selections := (hd merged)\<lparr>primary := True\<rparr> # tl merged\<rparr>
           else m\<lparr>selections := merged\<rparr>)"

section \<open>Surrounds\<close>

definition PAIRS :: "string \<rightharpoonup> string \<times> string" where
  "PAIRS = py_dict
     [(''('', (''('', '')'')), ('')'', (''('', '')'')),
      (''['', (''['', '']'')), ('']'', (''['', '']'')),
      (''{'', (''{'', ''}'')), (''}'', (''{'', ''}'')),
      (''<'', (''<'', ''>'')), (''>'', (''<'', ''>'')),
      ([CHR 0x22], ([CHR 0x22], [CHR 0x22])), ([CHR 0x27], ([CHR 0x27], [CHR 0x27])),
      (''`'', (''`'', ''`'')), (''t'', (''<'', ''>''))]"

definition surround_pair :: "string \<Rightarrow> string \<times> string" where
  "surround_pair c = (case PAIRS c of Some p \<Rightarrow> p | None \<Rightarrow> (c, c))"

definition add_surround :: "string \<Rightarrow> Selection \<Rightarrow> string \<Rightarrow> string" where
  "add_surround txt selection surround_char =
     (if surround_char = ''t'' then
        py_slice_to txt (sel_start selection)
          @ ''<tag>'' @ py_slice txt (sel_start selection) (sel_end selection) @ ''</tag>''
          @ py_slice_from txt (sel_end selection)
      else
        py_slice_to txt (sel_start selection)
          @ fst (surround_pair surround_char)
          @ py_slice txt (sel_start selection) (sel_end selection)
          @ snd (surround_pair surround_char)
          @ py_slice_from txt (sel_end selection))"

definition delete_surround ::
  "(string \<rightharpoonup> TextObject) \<Rightarrow> string \<Rightarrow> Selection \<Rightarrow> string \<Rightarrow> error + string" where
  "delete_surround custom txt selection surround_char =
     (case find_object custom txt (head selection) surround_char False of
        Inl e \<Rightarrow> Inl e
      | Inr None \<Rightarrow> Inr txt
      | Inr (Some (b0, b1)) \<Rightarrow>
          Inr (py_slice_to txt b0 @ py_slice txt (b0 + 1) (b1 - 1) @ py_slice_from txt b1))"

definition change_surround ::
  "(string \<rightharpoonup> TextObject) \<Rightarrow> string \<Rightarrow> Selection \<Rightarrow> string \<Rightarrow> string \<Rightarrow> error + string" where
  "change_surround custom txt selection old_char new_char =
     (case find_object custom txt (head selection) old_char False of
        Inl e \<Rightarrow> Inl e
      | Inr None \<Rightarrow> Inr txt
      | Inr (Some (b0, b1)) \<Rightarrow>
          Inr (py_slice_to txt b0 @ fst (surround_pair new_char)
               @ py_slice txt (b0 + 1) (b1 - 1)
               @ snd (surround_pair new_char) @ py_slice_from txt b1))"

section \<open>Applying a transformation to the selections\<close>

text \<open>\<^verbatim>\<open>HelixFeatures.apply_to_selections\<close>: the selections are taken by descending start
  (the sort is stable); each one's text is replaced and its head moved to the end of the
  replacement. \<open>k\<close> is the selection's place in the manager's list.\<close>

definition apply_one :: "(string \<Rightarrow> string) \<Rightarrow> nat \<times> Selection \<Rightarrow> string \<times> Selection list \<Rightarrow> string \<times> Selection list" where
  "apply_one transform ks st =
     (let sel = snd ks; txt = fst st;
          new_text = transform (py_slice txt (sel_start sel) (sel_end sel))
      in (py_slice_to txt (sel_start sel) @ new_text @ py_slice_from txt (sel_end sel),
          (snd st)[fst ks := sel\<lparr>head := sel_start sel + int (length new_text)\<rparr>]))"

definition apply_to_selections ::
  "string \<Rightarrow> (string \<Rightarrow> string) \<Rightarrow> MultiCursorManager \<Rightarrow> MultiCursorManager \<times> string" where
  "apply_to_selections txt transform m =
     (let sorted_sels = sort_key (\<lambda>ks. - sel_start (snd ks)) (enumerate 0 (selections m));
          r = fold (apply_one transform) sorted_sels (txt, selections m)
      in (m\<lparr>selections := snd r\<rparr>, fst r))"

section \<open>Reachable engine states\<close>

text \<open>The states of a \<^verbatim>\<open>VimMode\<close> object: the one \<^verbatim>\<open>__init__\<close> builds, and every
  state a public method leaves behind (also when the method raised).\<close>

inductive reachable :: "VimMode \<Rightarrow> bool" where
  init: "reachable init_vim"
| key: "reachable vm \<Longrightarrow> reachable (fst (handle_key key modifiers vm))"
| register: "reachable vm \<Longrightarrow> reachable (set_register name c lw vm)"
| insert: "reachable vm \<Longrightarrow> reachable (enter_insert_mode vm)"
| normal: "reachable vm \<Longrightarrow> reachable (enter_normal_mode vm)"
| visual: "reachable vm \<Longrightarrow> reachable (enter_visual_mode line_wise block vm)"
| command: "reachable vm \<Longrightarrow> reachable (enter_command_mode vm)"
| replace: "reachable vm \<Longrightarrow> reachable (enter_replace_mode vm)"

text \<open>The state of the engine when \<open>s\<close> has been typed on the command line: Command mode
  is entered from the initial state, then every character of \<open>s\<close> is a key press.\<close>

definition type_command :: "string \<Rightarrow> VimMode" where
  "type_command s = fst (handle_keys (map (\<lambda>c. [c]) s) (enter_command_mode init_vim))"

text \<open>The states of a \<^verbatim>\<open>MultiCursorManager\<close>: the one \<^verbatim>\<open>__init__\<close> builds, and every
  state one of its public methods leaves behind.\<close>

inductive cursors_reachable :: "MultiCursorManager \<Rightarrow> bool" where
  init: "cursors_reachable init_cursors"
| add: "cursors_reachable m \<Longrightarrow> cursors_reachable (add_selection a h p m)"
| remove: "cursors_reachable m \<Longrightarrow> cursors_reachable (remove_selection index m)"
| clear: "cursors_reachable m \<Longrightarrow> cursors_reachable (clear_selections m)"
| select_all: "cursors_reachable m \<Longrightarrow> cursors_reachable (select_all content_length m)"
| split_line: "cursors_reachable m \<Longrightarrow> cursors_reachable (split_selection_by_line txt m)"
| split_regex:
    "cursors_reachable m \<Longrightarrow> cursors_reachable (fst (split_selection_by_regex txt finditer_of m))"
| text_object:
    "cursors_reachable m \<Longrightarrow> cursors_reachable (fst (select_text_object txt obj_type inner m))"
| above: "cursors_reachable m \<Longrightarrow> cursors_reachable (add_cursor_above txt m)"
| below: "cursors_reachable m \<Longrightarrow> cursors_reachable (add_cursor_below txt m)"
| flip: "cursors_reachable m \<Longrightarrow> cursors_reachable (flip_selections m)"
| merge: "cursors_reachable m \<Longrightarrow> cursors_reachable (merge_consecutive_selections m)"
| custom:
    "cursors_reachable m \<Longrightarrow>
     cursors_reachable (m\<lparr>custom_objects := add_custom_object obj (custom_objects m)\<rparr>)"

text \<open>The number of selections with \<^verbatim>\<open>primary = True\<close>.\<close>

definition cnt :: "Selection list \<Rightarrow> nat" where
  "cnt sels = length (filter primary sels)"

definition primaries :: "MultiCursorManager \<Rightarrow> nat" where
  "primaries m = cnt (selections m)"

section \<open>Properties of the register store\<close>

lemma registers_enter_mode [simp]: "registers (enter_mode m vm) = registers vm"
  by (simp add: enter_mode_def)

lemma registers_enter_normal_mode [simp]: "registers (enter_normal_mode vm) = registers vm"
  by (simp add: enter_normal_mode_def Let_def)

lemma registers_execute_command [simp]: "registers (fst (execute_command vm)) = registers vm"
  by (simp add: execute_command_def Let_def split: sum.splits)

lemma registers_recall [simp]: "registers (fst (recall vm idx)) = registers vm"
  by (simp add: recall_def with_command_def Let_def split: sum.splits)

lemma registers_handle_normal_key:
  "registers (fst (handle_normal_key key modifiers vm)) = registers vm"
  by (simp add: handle_normal_key_def Let_def split: option.splits sum.splits)

lemma registers_handle_insert_key:
  "registers (fst (handle_insert_key key modifiers vm)) = registers vm"
  by (simp add: handle_insert_key_def Let_def)

lemma registers_handle_visual_key:
  "registers (fst (handle_visual_key key modifiers vm)) = registers vm"
  by (simp add: handle_visual_key_def returning_def split: option.splits)

lemma registers_handle_replace_key:
  "registers (fst (handle_replace_key key modifiers vm)) = registers vm"
  by (simp add: handle_replace_key_def)

lemma registers_handle_command_key:
  "registers (fst (handle_command_key key modifiers vm)) = registers vm"
  by (simp add: handle_command_key_def with_command_def Let_def)

lemma registers_handle_key: "registers (fst (handle_key key modifiers vm)) = registers vm"
  by (simp add: handle_key_def registers_handle_normal_key registers_handle_insert_key
      registers_handle_visual_key registers_handle_replace_key registers_handle_command_key
      split: EditorMode.splits)

lemma set_register_unnamed:
  "registers vm [] \<noteq> None \<Longrightarrow> registers (set_register name c lw vm) [] \<noteq> None"
  by (simp add: set_register_def Let_def)

lemma init_registers_unnamed: "init_registers [] \<noteq> None"
  unfolding init_registers_def py_dict_def map_of_eq_None_iff by simp

lemma reachable_unnamed: "reachable vm \<Longrightarrow> registers vm [] \<noteq> None"
proof (induction rule: reachable.induct)
  case init
  show ?case by (simp add: init_vim_def init_registers_unnamed)
next
  case (key vm key modifiers)
  then show ?case by (simp add: registers_handle_key)
next
  case (register vm name c lw)
  from register.IH show ?case by (rule set_register_unnamed)
qed (simp_all add: enter_insert_mode_def enter_visual_mode_def enter_command_mode_def
       enter_replace_mode_def)

text \<open>
  C9. In every reachable state, \<^verbatim>\<open>get_register\<close> of a name that is no key of the register
  map returns what the map holds under the unnamed key \<^verbatim>\<open>""\<close>, and that is a register,
  never \<^verbatim>\<open>None\<close>.
\<close>

theorem get_register_missing:
  assumes "reachable vm" and "name \<notin> dom (registers vm)"
  shows "get_register vm name = registers vm [] \<and> get_register vm name \<noteq> None"
proof -
  from assms(2) have "registers vm name = None"
    by (simp add: domIff)
  then have eq: "get_register vm name = registers vm []"
    by (simp add: get_register_def)
  with reachable_unnamed [OF assms(1)] show ?thesis
    by simp
qed

text \<open>After \<^verbatim>\<open>set_register("a", "x", True)\<close> the uppercase name \<^verbatim>\<open>"A"\<close> is no key, and
  reading it gives the unnamed register, which mirrors the write.\<close>

theorem get_register_missing_witness:
  "reachable (set_register ''a'' ''x'' True init_vim)
   \<and> ''A'' \<notin> dom (registers (set_register ''a'' ''x'' True init_vim))
   \<and> get_register (set_register ''a'' ''x'' True init_vim) ''A''
       = Some \<lparr>content = ''x'', linewise = True\<rparr>"
proof -
  have r: "reachable (set_register ''a'' ''x'' True init_vim)"
    by (rule reachable.register) (rule reachable.init)
  have d: "''A'' \<notin> dom (registers (set_register ''a'' ''x'' True init_vim))"
    by code_simp
  have u: "registers (set_register ''a'' ''x'' True init_vim) []
             = Some \<lparr>content = ''x'', linewise = True\<rparr>"
    by (simp add: set_register_def Let_def)
  from get_register_missing [OF r d] r d u show ?thesis
    by simp
qed

section \<open>Properties of key handling in Normal mode\<close>

lemma ctrl_of_empty: "ctrl_of Map.empty = False"
  by (simp add: ctrl_of_def)

lemma digit_keys: "str_isdigit ''3''" "str_isdigit ''0''" "\<not> str_isdigit ''d''"
  by code_simp+

lemma lookup_d: "lookup_action ''d'' = None" "lookup_action ''dd'' = Some ''delete_line''"
  by code_simp+

lemma operator_d: "is_operator ''d''"
  by code_simp

lemma py_int_3: "py_int ''3'' = Inr 3"
  by code_simp

lemma normal_3:
  assumes "mode vm = NORMAL"
  shows "handle_key ''3'' Map.empty vm = (vm\<lparr>count_buffer := count_buffer vm @ ''3''\<rparr>, Inr None)"
  using assms by (simp add: handle_key_def handle_normal_key_def ctrl_of_empty digit_keys)

lemma normal_d_first:
  assumes "mode vm = NORMAL" and "key_sequence vm = []"
  shows "handle_key ''d'' Map.empty vm
           = (vm\<lparr>key_sequence := ''d'', operator_pending := Some ''d''\<rparr>, Inr None)"
  using assms
  by (simp add: handle_key_def handle_normal_key_def ctrl_of_empty digit_keys lookup_d
      operator_d Let_def)

lemma normal_d_second:
  assumes "mode vm = NORMAL" and "key_sequence vm = ''d''" and "operator_pending vm = Some ''d''"
    and "count_buffer vm = [] \<and> n = 1 \<or> py_int (count_buffer vm) = Inr n \<and> count_buffer vm \<noteq> []"
  shows "handle_key ''d'' Map.empty vm
           = (vm\<lparr>key_sequence := [], count_buffer := []\<rparr>,
              Inr (Some [(''action'', Str ''delete_line''), (''count'', Num n),
                         (''operator'', Str ''d'')]))"
  using assms
  by (auto simp add: handle_key_def handle_normal_key_def ctrl_of_empty digit_keys lookup_d
      execute_action_def opt_str_def Let_def)

text \<open>
  C1, as the code has it. In Normal mode with empty accumulators the keys \<^verbatim>\<open>3\<close>, \<^verbatim>\<open>d\<close>,
  \<^verbatim>\<open>d\<close> are answered by \<^verbatim>\<open>None\<close>, \<^verbatim>\<open>None\<close> and the action \<^verbatim>\<open>delete_line\<close> with count 3,
  and the keys \<^verbatim>\<open>d\<close>, \<^verbatim>\<open>d\<close> by \<^verbatim>\<open>None\<close> and \<^verbatim>\<open>delete_line\<close> with count 1; in both the
  action's operator is \<^verbatim>\<open>"d"\<close>, which the first \<^verbatim>\<open>d\<close> left pending. The text buffer is no
  input of \<^verbatim>\<open>handle_key\<close>.
\<close>

theorem dd_from_empty_accumulators:
  assumes "mode vm = NORMAL" and "count_buffer vm = []" and "operator_pending vm = None"
    and "key_sequence vm = []"
  shows "snd (handle_keys [''3'', ''d'', ''d''] vm)
           = Inr [None, None, Some [(''action'', Str ''delete_line''), (''count'', Num 3),
                                    (''operator'', Str ''d'')]]
       \<and> snd (handle_keys [''d'', ''d''] vm)
           = Inr [None, Some [(''action'', Str ''delete_line''), (''count'', Num 1),
                              (''operator'', Str ''d'')]]"
proof -
  let ?v3 = "vm\<lparr>count_buffer := count_buffer vm @ ''3''\<rparr>"
  let ?v3d = "?v3\<lparr>key_sequence := ''d'', operator_pending := Some ''d''\<rparr>"
  let ?vd = "vm\<lparr>key_sequence := ''d'', operator_pending := Some ''d''\<rparr>"
  have k1: "handle_key ''3'' Map.empty vm = (?v3, Inr None)"
    using assms(1) by (rule normal_3)
  have k2: "handle_key ''d'' Map.empty ?v3 = (?v3d, Inr None)"
    by (rule normal_d_first) (simp_all add: assms)
  have k3: "handle_key ''d'' Map.empty ?v3d
              = (?v3d\<lparr>key_sequence := [], count_buffer := []\<rparr>,
                 Inr (Some [(''action'', Str ''delete_line''), (''count'', Num 3),
                            (''operator'', Str ''d'')]))"
    by (rule normal_d_second) (simp_all add: assms py_int_3)
  have j1: "handle_key ''d'' Map.empty vm = (?vd, Inr None)"
    by (rule normal_d_first) (simp_all add: assms)
  have j2: "handle_key ''d'' Map.empty ?vd
              = (?vd\<lparr>key_sequence := [], count_buffer := []\<rparr>,
                 Inr (Some [(''action'', Str ''delete_line''), (''count'', Num 1),
                            (''operator'', Str ''d'')]))"
    by (rule normal_d_second) (simp_all add: assms)
  show ?thesis
    by (simp add: k1 k2 k3 j1 j2)
qed

text \<open>The initial state of the engine is such a state.\<close>

theorem dd_from_empty_accumulators_witness:
  "snd (handle_keys [''3'', ''d'', ''d''] init_vim)
     = Inr [None, None, Some [(''action'', Str ''delete_line''), (''count'', Num 3),
                              (''operator'', Str ''d'')]]
   \<and> snd (handle_keys [''d'', ''d''] init_vim)
     = Inr [None, Some [(''action'', Str ''delete_line''), (''count'', Num 1),
                        (''operator'', Str ''d'')]]"
  using dd_from_empty_accumulators [of init_vim] by (simp add: init_vim_def)

text \<open>C1 as the claim states it fails: after \<^verbatim>\<open>3\<close>, \<^verbatim>\<open>d\<close> from the initial state, the
  second \<^verbatim>\<open>d\<close> is not answered by the action whose operator is \<^verbatim>\<open>None\<close>.\<close>

theorem dd_operator_counterexample:
  "snd (handle_key ''d'' Map.empty (fst (handle_keys [''3'', ''d''] init_vim)))
     = Inr (Some [(''action'', Str ''delete_line''), (''count'', Num 3), (''operator'', Str ''d'')])
   \<and> snd (handle_key ''d'' Map.empty (fst (handle_keys [''3'', ''d''] init_vim)))
     \<noteq> Inr (Some [(''action'', Str ''delete_line''), (''count'', Num 3), (''operator'', NoneVal)])"
  by code_simp






section \<open>Properties of the command line\<close>

lemma command_return:
  "mode vm = COMMAND \<Longrightarrow> handle_key ''Return'' modifiers vm = execute_command vm"
  by (simp add: handle_key_def handle_command_key_def Let_def)

lemma mode_enter_normal_mode: "mode (enter_normal_mode vm) = NORMAL"
  by (simp add: enter_normal_mode_def enter_mode_def Let_def)

lemma dispatch_unknown:
  assumes "split1 cmd = cmd_name # rest" and "ex_commands cmd_name = None"
    and "\<forall>m nm. re_match range_re cmd = Some m \<and> group m 3 = Some nm \<longrightarrow> ex_commands nm = None"
  shows "dispatch cmd = Inr None"
  using assms by (auto simp add: dispatch_def Let_def split: option.splits)

text \<open>
  C3, as the code has it. In Command mode, when the first word of the trimmed buffer is
  no name of the command table, and the buffer read as range, name and arguments has no
  name of the table either, Return yields the action \<^verbatim>\<open>command_executed\<close> carrying the
  trimmed buffer, and the engine is back in Normal mode. No error action is made.
\<close>

theorem unknown_command:
  assumes "mode vm = COMMAND"
    and "split1 (strip (buffer (command_state vm))) = cmd_name # rest"
    and "ex_commands cmd_name = None"
    and "\<forall>m nm. re_match range_re (strip (buffer (command_state vm))) = Some m
                  \<and> group m 3 = Some nm \<longrightarrow> ex_commands nm = None"
  shows "snd (handle_key ''Return'' modifiers vm)
           = Inr (Some [(''action'', Str ''command_executed''),
                        (''command'', Str (strip (buffer (command_state vm))))])
         \<and> mode (fst (handle_key ''Return'' modifiers vm)) = NORMAL"
proof -
  let ?cmd = "strip (buffer (command_state vm))"
  from assms(2) have ne: "?cmd \<noteq> []"
    by (auto simp add: split1_def)
  have d: "dispatch ?cmd = Inr None"
    using assms(2-4) by (rule dispatch_unknown)
  show ?thesis
    using ne d
    by (simp add: command_return [OF assms(1)] execute_command_def Let_def
        mode_enter_normal_mode)
qed

text \<open>The command line \<^verbatim>\<open>xyz 1\<close>: \<^verbatim>\<open>xyz\<close> is no command, with or without a range.\<close>

theorem unknown_command_witness:
  "snd (handle_key ''Return'' Map.empty (type_command ''xyz 1''))
     = Inr (Some [(''action'', Str ''command_executed''), (''command'', Str ''xyz 1'')])
   \<and> mode (fst (handle_key ''Return'' Map.empty (type_command ''xyz 1''))) = NORMAL"
proof -
  have m: "mode (type_command ''xyz 1'') = COMMAND"
    by code_simp
  have b: "strip (buffer (command_state (type_command ''xyz 1''))) = ''xyz 1''"
    by code_simp
  have s: "split1 (strip (buffer (command_state (type_command ''xyz 1'')))) = [''xyz'', ''1'']"
    unfolding b by code_simp
  have u: "ex_commands ''xyz'' = None"
    by code_simp
  have r: "re_match range_re ''xyz 1''
             = Some \<lparr>mpos = 5, mrest = [], mgroups = [(4, '' 1''), (3, ''xyz'')]\<rparr>"
    by code_simp
  have g: "\<forall>m nm. re_match range_re (strip (buffer (command_state (type_command ''xyz 1''))))
                     = Some m \<and> group m 3 = Some nm \<longrightarrow> ex_commands nm = None"
    unfolding b r using u by (auto simp add: group_def)
  from unknown_command [OF m s u g, of Map.empty] show ?thesis
    unfolding b .
qed

text \<open>C3 as the claim states it fails: \<^verbatim>\<open>foo\<close> is no command, and Return on the command
  line \<^verbatim>\<open>foo\<close> yields \<^verbatim>\<open>command_executed\<close>, not an error action.\<close>

theorem unknown_command_counterexample:
  "ex_commands ''foo'' = None
   \<and> snd (handle_key ''Return'' Map.empty (type_command ''foo''))
       = Inr (Some [(''action'', Str ''command_executed''), (''command'', Str ''foo'')])"
  by code_simp

text \<open>
  C4 fails on the code. The command line \<^verbatim>\<open>%s/foo/bar/g\<close> holds no blank, so its first
  word is the whole line, which is no name of the table; read as a range command it has
  no match either, since \<^verbatim>\<open>%\<close> starts neither a bound nor a name. Return yields
  \<^verbatim>\<open>command_executed\<close>. The line \<^verbatim>\<open>s/foo/bar/g\<close> reaches \<^verbatim>\<open>_cmd_substitute\<close> with the
  arguments \<^verbatim>\<open>/foo/bar/g\<close>, which its pattern refuses because it asks for the \<^verbatim>\<open>s\<close> again;
  only with the name set apart, as in \<^verbatim>\<open>%s s/foo/bar/g\<close>, is the substitution parsed.
\<close>

theorem substitute_whole_file:
  "snd (handle_key ''Return'' Map.empty (type_command ''%s/foo/bar/g''))
     = Inr (Some [(''action'', Str ''command_executed''), (''command'', Str ''%s/foo/bar/g'')])
   \<and> snd (handle_key ''Return'' Map.empty (type_command ''s/foo/bar/g''))
     = Inr (Some [(''action'', Str ''error''), (''message'', Str ''Invalid substitute syntax'')])
   \<and> snd (handle_key ''Return'' Map.empty (type_command ''%s s/foo/bar/g''))
     = Inr (Some [(''action'', Str ''substitute''), (''pattern'', Str ''foo''),
                  (''replacement'', Str ''bar''), (''flags'', Str ''g''),
                  (''start'', Str ''1''), (''end'', Str ''$'')])"
  by code_simp

section \<open>Properties of the engine boundary\<close>

text \<open>
  C2 fails on the code. With the cursor at the end of the text \<^verbatim>\<open>(hello)\<close>, offset 7,
  \<^verbatim>\<open>find_object\<close> for \<^verbatim>\<open>(\<close> reads \<^verbatim>\<open>content[7]\<close> and raises \<^verbatim>\<open>IndexError\<close>
  (\<^verbatim>\<open>_find_word\<close> returns \<^verbatim>\<open>None\<close> for such a cursor, \<^verbatim>\<open>_find_balanced_pair\<close> and
  \<^verbatim>\<open>_find_quote\<close> have no such guard). Return on the command line \<^verbatim>\<open>set\<close> raises
  \<^verbatim>\<open>IndexError\<close> in \<^verbatim>\<open>_cmd_set\<close>, which reads \<^verbatim>\<open>parts[0]\<close> of the empty argument list.
\<close>

theorem exceptions_escape:
  "find_object custom ''(hello)'' 7 ''('' True = Inl IndexError
   \<and> find_object custom ''say hi'' 6 [CHR 0x22] True = Inl IndexError
   \<and> find_object custom ''word'' 4 ''w'' True = Inr None
   \<and> snd (handle_key ''Return'' Map.empty (type_command ''set'')) = Inl IndexError"
  by code_simp

section \<open>Properties of the text object finder and of surrounds\<close>

text \<open>
  C7. On \<^verbatim>\<open>(hello)\<close> with the cursor at offset 3, the inner parentheses object is the
  range (1, 6) and the object around it is (0, 7); on the unbalanced \<^verbatim>\<open>(hello\<close> there is
  no object.
\<close>

theorem find_object_parentheses:
  "find_object custom ''(hello)'' 3 ''('' True = Inr (Some (1, 6))
   \<and> find_object custom ''(hello)'' 3 ''('' False = Inr (Some (0, 7))
   \<and> find_object custom ''(hello'' 3 ''('' True = Inr None"
  by code_simp

text \<open>Where \<^verbatim>\<open>find_object\<close> returns \<^verbatim>\<open>None\<close> for the surround character, both surround
  methods return the text as it was.\<close>

lemma surround_not_found:
  assumes "find_object custom txt (head selection) surround_char False = Inr None"
  shows "delete_surround custom txt selection surround_char = Inr txt
       \<and> change_surround custom txt selection surround_char new_char = Inr txt"
  using assms by (simp add: delete_surround_def change_surround_def)

text \<open>With the cursor at or behind the end of the text, the search for a parenthesis
  reads \<^verbatim>\<open>content[pos]\<close> before anything else, and the exception leaves both surround
  methods.\<close>

lemma find_opening_beyond:
  "length t \<le> i \<Longrightarrow> find_opening t pos open_char close_char depth i = Inl IndexError"
  by (subst find_opening.simps) (simp add: py_index_def)

lemma find_object_paren_beyond:
  assumes "int (length t) \<le> pos"
  shows "find_object custom t pos ''('' inner = Inl IndexError"
proof -
  have o: "TEXT_OBJECTS ''('' = Some (text_object ''parentheses'' True False)"
    by code_simp
  have s: "str_in ''('' ''()[]{}''" "str_in ''('' ''([{''" "pairs ''('' = Some '')''"
    by code_simp+
  from assms have p: "\<not> pos < 0" "length t \<le> nat pos"
    by simp_all
  show ?thesis
    using p
    by (simp add: find_object_def o s text_object_def find_balanced_pair_def Let_def
        find_opening_beyond del: find_opening.simps)
qed

lemma surround_beyond:
  assumes "int (length t) \<le> head selection"
  shows "delete_surround custom t selection ''('' = Inl IndexError
       \<and> change_surround custom t selection ''('' new_char = Inl IndexError"
  using find_object_paren_beyond [OF assms]
  by (simp add: delete_surround_def change_surround_def)

text \<open>
  C10 fails on the code. The text \<^verbatim>\<open>(hello\<close> has no pair of parentheses. With the
  selection's head at offset 3, \<^verbatim>\<open>delete_surround\<close> and \<^verbatim>\<open>change_surround\<close> return the
  text as it was; with the head at the end of the text, offset 6, where no pair can be
  located either, both raise \<^verbatim>\<open>IndexError\<close> instead of returning the text: the read of
  \<^verbatim>\<open>content[pos]\<close> in \<^verbatim>\<open>_find_balanced_pair\<close> that C2 fails on.
\<close>

theorem surround_raises:
  "delete_surround custom ''(hello'' (Selection 6 6 True) ''('' = Inl IndexError
   \<and> change_surround custom ''(hello'' (Selection 6 6 True) ''('' ''['' = Inl IndexError
   \<and> delete_surround custom ''(hello'' (Selection 3 3 True) ''('' = Inr ''(hello''
   \<and> change_surround custom ''(hello'' (Selection 3 3 True) ''('' ''['' = Inr ''(hello''"
  by code_simp

section \<open>Properties of the selections\<close>

text \<open>
  C6 fails on the code. Removing the only selection leaves the set empty, and
  \<^verbatim>\<open>add_selection(1, 1)\<close> then adds a selection that is not primary: the set is not empty
  and has no primary selection.
\<close>

theorem no_primary_after_remove_and_add:
  "cursors_reachable (add_selection 1 1 False (remove_selection 0 init_cursors))
   \<and> selections (add_selection 1 1 False (remove_selection 0 init_cursors))
       = [Selection 1 1 False]
   \<and> primaries (add_selection 1 1 False (remove_selection 0 init_cursors)) = 0"
proof -
  have "cursors_reachable (add_selection 1 1 False (remove_selection 0 init_cursors))"
    by (intro cursors_reachable.add cursors_reachable.remove cursors_reachable.init)
  moreover have "selections (add_selection 1 1 False (remove_selection 0 init_cursors))
                   = [Selection 1 1 False]"
    by code_simp
  moreover have "primaries (add_selection 1 1 False (remove_selection 0 init_cursors)) = 0"
    by code_simp
  ultimately show ?thesis
    by simp
qed

lemma primaries_cnt: "primaries m = cnt (selections m)"
  by (simp add: primaries_def)

lemma cnt_simps [simp]:
  "cnt [] = 0"
  "cnt (sel # sels) = (if primary sel then Suc (cnt sels) else cnt sels)"
  "cnt (xs @ ys) = cnt xs + cnt ys"
  by (simp_all add: cnt_def)

lemma cnt_unset [simp]: "cnt (map (\<lambda>sel. sel\<lparr>primary := False\<rparr>) sels) = 0"
  by (induction sels) simp_all

lemma cnt_flip [simp]: "cnt (map (\<lambda>sel. sel\<lparr>anchor := head sel, head := anchor sel\<rparr>) sels) = cnt sels"
  by (induction sels) simp_all

lemma primary_Selection [simp]: "primary (Selection a h p) = p"
  by (simp add: Selection_def)

lemma cnt_add_selection:
  "cnt (selections m) \<le> Suc 0 \<Longrightarrow> cnt (selections (add_selection a h p m)) \<le> Suc 0"
  by (simp add: add_selection_def Let_def)

lemma cnt_take_drop: "cnt (take i sels) + cnt (drop i sels) = cnt sels"
  by (metis append_take_drop_id cnt_simps(3))

lemma cnt_delete:
  assumes "i < length sels"
  shows "cnt (take i sels @ drop (Suc i) sels) + (if primary (sels ! i) then 1 else 0) = cnt sels"
proof -
  have "drop i sels = sels ! i # drop (Suc i) sels"
    using assms by (simp add: Cons_nth_drop_Suc)
  then have "cnt (drop i sels) = (if primary (sels ! i) then 1 else 0) + cnt (drop (Suc i) sels)"
    by simp
  with cnt_take_drop [of i sels] show ?thesis by simp
qed

lemma cnt_set_head: "sels \<noteq> [] \<Longrightarrow> cnt sels = 0 \<Longrightarrow> cnt ((hd sels)\<lparr>primary := True\<rparr> # tl sels) = 1"
  by (cases sels) (simp_all split: if_splits)

lemma cnt_remove_selection:
  assumes "cnt (selections m) \<le> 1"
  shows "cnt (selections (remove_selection index m)) \<le> 1"
proof (cases "0 \<le> index \<and> index < int (length (selections m))")
  case False
  then have "remove_selection index m = m"
    unfolding remove_selection_def by (rule if_not_P)
  with assms show ?thesis by simp
next
  case in_range: True
  let ?i = "nat index"
  let ?sels = "take ?i (selections m) @ drop (?i + 1) (selections m)"
  from in_range have i: "?i < length (selections m)" by linarith
  have d: "cnt ?sels + (if primary (selections m ! ?i) then 1 else 0) = cnt (selections m)"
    using cnt_delete [OF i] by simp
  have r: "remove_selection index m
             = (if primary (selections m ! ?i) \<and> ?sels \<noteq> []
                then m\<lparr>selections := (hd ?sels)\<lparr>primary := True\<rparr> # tl ?sels\<rparr>
                else m\<lparr>selections := ?sels\<rparr>)"
    unfolding remove_selection_def Let_def using in_range by (rule if_P)
  show ?thesis
  proof (cases "primary (selections m ! ?i) \<and> ?sels \<noteq> []")
    case True
    then have "remove_selection index m
                 = m\<lparr>selections := (hd ?sels)\<lparr>primary := True\<rparr> # tl ?sels\<rparr>"
      unfolding r by (rule if_P)
    moreover from True d assms have "cnt ?sels = 0"
      by simp
    with True have "cnt ((hd ?sels)\<lparr>primary := True\<rparr> # tl ?sels) = 1"
      by (intro cnt_set_head) simp_all
    ultimately show ?thesis
      by simp
  next
    case False
    then have "remove_selection index m = m\<lparr>selections := ?sels\<rparr>"
      unfolding r by (rule if_not_P)
    moreover from d assms have "cnt ?sels \<le> 1"
      by (simp split: if_splits)
    ultimately show ?thesis
      by simp
  qed
qed

lemma enumerate_positive: "kb \<in> set (enumerate (Suc n) bs) \<Longrightarrow> fst kb \<noteq> 0"
  by (cases kb) (auto simp add: in_set_enumerate_eq)

lemma cnt_none: "(\<And>sel. sel \<in> set sels \<Longrightarrow> \<not> primary sel) \<Longrightarrow> cnt sels = 0"
  by (induction sels) simp_all

lemma cnt_first_primary: "cnt (first_primary bs) \<le> Suc 0"
proof (cases bs)
  case Nil
  then show ?thesis by (simp add: first_primary_def)
next
  case (Cons b bs')
  have "cnt (map (\<lambda>(k, b). Selection (fst b) (snd b) (k = 0)) (enumerate (Suc 0) bs')) = 0"
    by (rule cnt_none) (auto dest: enumerate_positive)
  with Cons show ?thesis by (simp add: first_primary_def)
qed

lemma cnt_split_selection_by_line:
  "cnt (selections m) \<le> 1 \<Longrightarrow> cnt (selections (split_selection_by_line t m)) \<le> 1"
proof -
  assume a: "cnt (selections m) \<le> 1"
  let ?new = "map (\<lambda>sel. sel\<lparr>primary := False\<rparr>) (line_selections (selections m) (split_on newline t) 0 0)"
  have z: "cnt ?new = 0" by simp
  show ?thesis
  proof (cases ?new)
    case Nil
    with a show ?thesis by (simp add: split_selection_by_line_def Let_def)
  next
    case (Cons sel sels)
    with z have "cnt sels = 0" by (simp split: if_splits)
    with Cons show ?thesis by (simp add: split_selection_by_line_def Let_def)
  qed
qed

lemma cnt_merge_loop: "cnt (merge_loop sels merged) \<le> cnt sels + cnt merged"
proof (induction sels merged rule: merge_loop.induct)
  case (1 merged)
  show ?case by (simp add: cnt_def flip: rev_filter)
next
  case (2 sel sels)
  then show ?case by (simp split: if_splits)
next
  case (3 sel sels lst merged)
  then show ?case by (auto split: if_splits)
qed

lemma cnt_sort_key: "cnt (sort_key f sels) = cnt sels"
  by (simp add: cnt_def filter_sort)

lemma cnt_merge_consecutive_selections:
  assumes "cnt (selections m) \<le> 1"
  shows "cnt (selections (merge_consecutive_selections m)) \<le> 1"
proof (cases "length (selections m) < 2")
  case True
  with assms show ?thesis by (simp add: merge_consecutive_selections_def)
next
  case False
  let ?sorted = "sort_key sel_start (selections m)"
  let ?merged = "merge_loop (tl ?sorted) [hd ?sorted]"
  have "?sorted \<noteq> []"
  proof
    assume "?sorted = []"
    then have "length ?sorted = 0" by simp
    with False show False by simp
  qed
  then have "cnt (tl ?sorted) + cnt [hd ?sorted] = cnt ?sorted"
    by (cases ?sorted) simp_all
  with cnt_merge_loop [of "tl ?sorted" "[hd ?sorted]"] assms have le: "cnt ?merged \<le> 1"
    by (simp add: cnt_sort_key)
  show ?thesis
  proof (cases "\<not> list_ex primary ?merged \<and> ?merged \<noteq> []")
    case True
    then have "cnt ?merged = 0"
      by (intro cnt_none) (auto simp add: list_ex_iff)
    with True have "cnt ((hd ?merged)\<lparr>primary := True\<rparr> # tl ?merged) = 1"
      by (intro cnt_set_head) simp_all
    with True False show ?thesis
      by (simp add: merge_consecutive_selections_def Let_def)
  next
    case F: False
    with le False show ?thesis
      by (auto simp add: merge_consecutive_selections_def Let_def)
  qed
qed

text \<open>What the methods do keep: no reachable set of selections has two primary
  selections. A set without one stays without one until a method rebuilds the set.\<close>

lemma at_most_one_primary: "cursors_reachable m \<Longrightarrow> primaries m \<le> 1"
  unfolding primaries_cnt
proof (induction rule: cursors_reachable.induct)
  case init
  show ?case by (simp add: init_cursors_def)
next
  case (add m a h p)
  from add.IH show ?case by (simp add: cnt_add_selection)
next
  case (remove m index)
  from remove.IH show ?case by (rule cnt_remove_selection)
next
  case (clear m)
  show ?case by (simp add: clear_selections_def Let_def)
next
  case (select_all m content_length)
  show ?case by (simp add: select_all_def)
next
  case (split_line m t)
  from split_line.IH show ?case by (rule cnt_split_selection_by_line)
next
  case (split_regex m t finditer_of)
  then show ?case
    by (simp add: split_selection_by_regex_def cnt_first_primary split: sum.splits)
next
  case (text_object m t obj_type inner)
  then show ?case
    by (simp add: select_text_object_def cnt_first_primary split: sum.splits)
next
  case (above m t)
  then show ?case by (simp add: add_cursor_above_def Let_def cnt_add_selection)
next
  case (below m t)
  then show ?case by (simp add: add_cursor_below_def Let_def cnt_add_selection)
next
  case (flip m)
  then show ?case by (simp add: flip_selections_def)
next
  case (merge m)
  from merge.IH show ?case by (rule cnt_merge_consecutive_selections)
next
  case (custom m obj)
  then show ?case by simp
qed

lemma slice_identity:
  assumes "slice_bound (length txt) s \<le> slice_bound (length txt) e"
  shows "py_slice_to txt s @ py_slice txt s e @ py_slice_from txt e = txt"
proof -
  let ?i = "slice_bound (length txt) s" and ?j = "slice_bound (length txt) e"
  have "take (?j - ?i) (drop ?i txt) @ drop ?j txt = drop ?i txt"
    using assms by (metis append_take_drop_id drop_drop le_add_diff_inverse2)
  then show ?thesis
    by (simp add: py_slice_to_def py_slice_def py_slice_from_def Let_def)
qed

lemma slice_bound_mono: "0 \<le> s \<Longrightarrow> s \<le> e \<Longrightarrow> slice_bound n s \<le> slice_bound n e"
  by (simp add: slice_bound_def)

lemma apply_one_identity:
  assumes "0 \<le> anchor (snd ks)" and "0 \<le> head (snd ks)"
  shows "fst (apply_one (\<lambda>s. s) ks st) = fst st"
proof -
  have "0 \<le> sel_start (snd ks)" and "sel_start (snd ks) \<le> sel_end (snd ks)"
    using assms by (simp_all add: sel_start_def sel_end_def)
  then have "slice_bound (length (fst st)) (sel_start (snd ks))
               \<le> slice_bound (length (fst st)) (sel_end (snd ks))"
    by (rule slice_bound_mono)
  then show ?thesis
    by (simp add: apply_one_def Let_def slice_identity)
qed

lemma fold_apply_one_identity:
  assumes "\<forall>ks \<in> set kss. 0 \<le> anchor (snd ks) \<and> 0 \<le> head (snd ks)"
  shows "fst (fold (apply_one (\<lambda>s. s)) kss st) = fst st"
  using assms
proof (induction kss arbitrary: st)
  case Nil
  then show ?case by simp
next
  case (Cons ks kss)
  from Cons.prems have "fst (fold (apply_one (\<lambda>s. s)) kss (apply_one (\<lambda>s. s) ks st))
                          = fst (apply_one (\<lambda>s. s) ks st)"
    by (intro Cons.IH) simp
  also from Cons.prems have "\<dots> = fst st"
    by (simp add: apply_one_identity)
  finally show ?case by simp
qed

lemma snd_enumerate: "ks \<in> set (enumerate n xs) \<Longrightarrow> snd ks \<in> set xs"
  by (cases ks) (auto simp add: in_set_enumerate_eq)

text \<open>
  C8, as the code has it. For every text and every set of selections whose anchors and
  heads are not negative, \<^verbatim>\<open>apply_to_selections\<close> with the identity returns the text
  unchanged.
\<close>

theorem apply_identity:
  assumes "\<forall>sel \<in> set (selections m). 0 \<le> anchor sel \<and> 0 \<le> head sel"
  shows "snd (apply_to_selections txt (\<lambda>s. s) m) = txt"
proof -
  have "\<forall>ks \<in> set (sort_key (\<lambda>ks. - sel_start (snd ks)) (enumerate 0 (selections m))).
          0 \<le> anchor (snd ks) \<and> 0 \<le> head (snd ks)"
    using assms by (auto dest: snd_enumerate)
  then show ?thesis
    by (simp add: apply_to_selections_def Let_def fold_apply_one_identity)
qed

text \<open>Two selections on \<^verbatim>\<open>hello world\<close>, the second one backward.\<close>

theorem apply_identity_witness:
  "snd (apply_to_selections ''hello world'' (\<lambda>s. s)
          (init_cursors\<lparr>selections := [Selection 0 5 True, Selection 11 6 False]\<rparr>))
     = ''hello world''"
proof -
  have "\<forall>sel \<in> set (selections
                      (init_cursors\<lparr>selections := [Selection 0 5 True, Selection 11 6 False]\<rparr>)).
          0 \<le> anchor sel \<and> 0 \<le> head sel"
    by (simp add: Selection_def)
  then show ?thesis
    by (rule apply_identity)
qed

text \<open>C8 as the claim states it fails: a selection from anchor -1 to head 1 on the four
  characters of a newline and \<^verbatim>\<open>abc\<close> starts, as a slice bound, behind its end, and the
  identity transformation returns six characters.\<close>

theorem apply_identity_counterexample:
  "selections (add_selection (- 1) 1 True (remove_selection 0 init_cursors))
     = [Selection (- 1) 1 True]
   \<and> snd (apply_to_selections (newline # ''abc'') (\<lambda>s. s)
            (add_selection (- 1) 1 True (remove_selection 0 init_cursors))) = newline # ''ababc''
   \<and> newline # ''ababc'' \<noteq> newline # ''abc''"
  by code_simp

end
